theory Spec2Isabelle
  imports Complex_Main "HOL-Library.AList"
begin

section \<open>Common data: error codes and status values\<close>

text \<open>
  The error numbers of \<^verbatim>\<open>pb::error::Errno\<close> that the modelled functions produce.
  A \<^verbatim>\<open>butil::Status\<close> is modelled by its error code alone: the message text is
  built with \<^verbatim>\<open>fmt::format\<close> for the log and the client and takes no part in any
  branch of the code. 64-bit integers of the source (ids, timestamps, flags) are
  modelled by \<open>int\<close>; the modelled code compares them and never does arithmetic that
  could leave the 64-bit range, except where a comment says so.
\<close>

datatype Errno =
    OK
  | EILLEGAL_PARAMTETERS
  | EINTERNAL
  | EREQUEST_FULL
  | EKEY_EMPTY
  | ERANGE_INVALID
  | EREGION_NOT_FOUND
  | EVECTOR_INVALID
  | EVECTOR_ID_DUPLICATED
  | EDOCUMENT_EMPTY
  | EDOCUMENT_EXCEED_MAX_BATCH_COUNT
  | EDOCUMENT_EXCEED_MAX_REQUEST_SIZE
  | EDOCUMENT_INDEX_BUILD_ERROR
  | EDOCUMENT_INDEX_NOT_READY
  | ETXN_MEMORY_LOCK_CONFLICT
  | EOTHER nat

type_synonym status = Errno

definition ok :: "status \<Rightarrow> bool" where
  "ok st = (st = OK)"

definition INT64_MAX :: int where
  "INT64_MAX = 2 ^ 63 - 1"

section \<open>Region meta: the applied-timestamp watermarks\<close>

text \<open>
  \<^verbatim>\<open>store::Region\<close> keeps two atomic 64-bit counters, both initialised to 0. Only the
  fields that \<^verbatim>\<open>SetRawAppliedMaxTs\<close> and \<^verbatim>\<open>SetTxnAccessMaxTs\<close> touch are modelled. The
  model is sequential: each setter is one step (load, compare, store).
\<close>

record Region =
  raw_applied_max_ts :: int
  txn_access_max_ts :: int

definition Region_init :: Region where
  "Region_init = \<lparr>raw_applied_max_ts = 0, txn_access_max_ts = 0\<rparr>"

definition SetRawAppliedMaxTs :: "int \<Rightarrow> Region \<Rightarrow> Region" where
  "SetRawAppliedMaxTs ts r =
     (if ts > raw_applied_max_ts r then r\<lparr>raw_applied_max_ts := ts\<rparr> else r)"

definition RawAppliedMaxTs :: "Region \<Rightarrow> int" where
  "RawAppliedMaxTs r = raw_applied_max_ts r"

definition SetTxnAccessMaxTs :: "int \<Rightarrow> Region \<Rightarrow> Region" where
  "SetTxnAccessMaxTs ts r =
     (if ts > txn_access_max_ts r then r\<lparr>txn_access_max_ts := ts\<rparr> else r)"

definition TxnAccessMaxTs :: "Region \<Rightarrow> int" where
  "TxnAccessMaxTs r = txn_access_max_ts r"

section \<open>The flat vector index\<close>

subsection \<open>Data\<close>

datatype MetricType =
    METRIC_TYPE_NONE
  | METRIC_TYPE_L2
  | METRIC_TYPE_INNER_PRODUCT
  | METRIC_TYPE_COSINE
  | METRIC_TYPE_HAMMING

text \<open>The metric of the raw faiss index: \<^verbatim>\<open>IndexFlatL2\<close> or \<^verbatim>\<open>IndexFlatIP\<close>.\<close>

datatype faiss_MetricType = METRIC_INNER_PRODUCT | METRIC_L2

text \<open>
  A \<^verbatim>\<open>pb::common::VectorWithId\<close>, reduced to the id and the float values. The element
  type \<open>'f\<close> stands for the 32-bit float of the source. The float operations the code
  uses are parameters, so that no theorem depends on how floating point rounds:
  \<open>f_one\<close> is the literal \<^verbatim>\<open>1.0F\<close>, \<open>f_sub\<close> is float subtraction and
  \<open>normalize_vector\<close> is the in-place normalisation that
  \<^verbatim>\<open>VectorIndexUtils::ExtractVectorValue\<close> applies when its flag is set.
\<close>

record 'f VectorWithId =
  vector_id :: int
  float_values :: "'f list"

record 'f float_ops =
  f_one :: 'f
  f_sub :: "'f \<Rightarrow> 'f \<Rightarrow> 'f"
  normalize_vector :: "'f list \<Rightarrow> 'f list"

text \<open>
  The faiss \<^verbatim>\<open>IndexIDMap2\<close> over a flat index. faiss is an external library; the model
  keeps the three containers the wrapper reads or that decide its behaviour:
  position \<open>i\<close> of \<open>entries\<close> holds \<^verbatim>\<open>id_map[i]\<close> together with the \<open>i\<close>-th stored
  vector of the raw index, and \<open>rev_map\<close> is the hash map from id to position, as an
  association list. \<^verbatim>\<open>ntotal\<close> is the length of \<open>entries\<close>.
\<close>

record 'f IndexIDMap2 =
  index_metric :: faiss_MetricType
  index_d :: nat
  entries :: "(int \<times> 'f list) list"
  rev_map :: "(int \<times> nat) list"

record 'f VectorIndexFlat =
  metric_type :: MetricType
  dimension :: nat
  normalize :: bool
  index_id_map2 :: "'f IndexIDMap2"

subsection \<open>The faiss operations the wrapper calls\<close>

text \<open>
  \<^verbatim>\<open>IndexIDMap2::construct_rev_map\<close> clears the map and stores
  \<^verbatim>\<open>rev_map[id_map[i]] = i\<close> for every position in increasing order.
\<close>

definition construct_rev_map :: "int list \<Rightarrow> (int \<times> nat) list" where
  "construct_rev_map ids = fold (\<lambda>i m. AList.update (ids ! i) i m) [0..<length ids] []"

text \<open>
  \<^verbatim>\<open>IndexIDMap2::remove_ids\<close> with an \<^verbatim>\<open>IDSelectorBatch\<close> over \<open>sel\<close>: every position
  whose id is selected is dropped from the raw index and from \<^verbatim>\<open>id_map\<close>, the others keep
  their order, and the reverse map is rebuilt.
\<close>

definition faiss_remove_ids :: "int list \<Rightarrow> 'f IndexIDMap2 \<Rightarrow> 'f IndexIDMap2" where
  "faiss_remove_ids sel ix =
     (let kept = filter (\<lambda>e. fst e \<notin> set sel) (entries ix)
      in ix\<lparr>entries := kept, rev_map := construct_rev_map (map fst kept)\<rparr>)"

text \<open>
  \<^verbatim>\<open>IndexIDMap2::add_with_ids\<close>: the vectors and ids are appended, then
  \<^verbatim>\<open>rev_map[id_map[i]] = i\<close> is stored for every new position.
\<close>

definition faiss_add_with_ids ::
  "'f list list \<Rightarrow> int list \<Rightarrow> 'f IndexIDMap2 \<Rightarrow> 'f IndexIDMap2" where
  "faiss_add_with_ids xs xids ix =
     (let prev_ntotal = length (entries ix);
          es = entries ix @ zip xids xs
      in ix\<lparr>entries := es,
            rev_map := fold (\<lambda>i m. AList.update (fst (es ! i)) i m)
                         [prev_ntotal..<length es] (rev_map ix)\<rparr>)"

text \<open>
  The read operations of faiss are not modelled: a search is recorded as a call with the
  arguments the wrapper hands over, and its answer is supplied by the caller of the model.
  A filter functor is a predicate on ids; the selector is \<open>None\<close> for a null pointer.
\<close>

type_synonym FilterFunctor = "int \<Rightarrow> bool"

datatype 'f faiss_call =
    search_call nat "'f list list" nat "FilterFunctor list option"
  | range_search_call nat "'f list list" 'f "FilterFunctor list option"

text \<open>
  The collaborators of the read path whose code is not at hand: the two faiss searches
  (\<open>faiss_range_search\<close> answers \<open>Inl\<close> when faiss throws) and the two functions of
  \<^verbatim>\<open>VectorIndexUtils\<close> that convert the raw answer into the result list.
\<close>

record ('f, 'rs, 'r) collaborators =
  faiss_search :: "'f IndexIDMap2 \<Rightarrow> 'f faiss_call \<Rightarrow> 'f list \<times> int list"
  faiss_range_search :: "'f IndexIDMap2 \<Rightarrow> 'f faiss_call \<Rightarrow> string + 'rs"
  FillSearchResult ::
    "'f VectorWithId list \<Rightarrow> nat \<Rightarrow> 'f list \<times> int list \<Rightarrow> MetricType \<Rightarrow> nat \<Rightarrow> 'r list \<Rightarrow> 'r list"
  FillRangeSearchResult :: "'rs \<Rightarrow> MetricType \<Rightarrow> nat \<Rightarrow> 'r list \<Rightarrow> 'r list"

subsection \<open>Helpers of VectorIndexUtils\<close>

text \<open>
  Modelled from the spec: the source of \<^verbatim>\<open>VectorIndexUtils::CheckVectorDimension\<close>
  (\<^verbatim>\<open>vector/vector_index_utils.h\<close>) is not at hand. The index has one dimension; the
  check answers \<^verbatim>\<open>EVECTOR_INVALID\<close> unless every vector of the batch has exactly that
  many values.
\<close>

definition CheckVectorDimension :: "'f VectorWithId list \<Rightarrow> nat \<Rightarrow> status" where
  "CheckVectorDimension vector_with_ids dm =
     (if list_all (\<lambda>v. length (float_values v) = dm) vector_with_ids then OK
      else EVECTOR_INVALID)"

text \<open>
  Modelled from the spec: the source of \<^verbatim>\<open>VectorIndexUtils::ExtractVectorId\<close> is not
  at hand. It copies the ids of the batch, in order, into an array.
\<close>

definition ExtractVectorId :: "'f VectorWithId list \<Rightarrow> int list" where
  "ExtractVectorId vector_with_ids = map vector_id vector_with_ids"

text \<open>
  Modelled from the spec: the source of \<^verbatim>\<open>VectorIndexUtils::CheckVectorIdDuplicated\<close>
  is not at hand. The index is keyed by id; the check answers
  \<^verbatim>\<open>EVECTOR_ID_DUPLICATED\<close> when an id occurs twice among the ids.
\<close>

definition CheckVectorIdDuplicated :: "int list \<Rightarrow> status" where
  "CheckVectorIdDuplicated ids = (if distinct ids then OK else EVECTOR_ID_DUPLICATED)"

text \<open>
  Modelled from the spec: the source of \<^verbatim>\<open>VectorIndexUtils::ExtractVectorValue\<close> is
  not at hand. It copies the float values of every vector of the batch, in order, and
  normalises each copy when the flag is set (the spec: cosine = normalize +
  inner-product).
\<close>

definition ExtractVectorValue ::
  "'f float_ops \<Rightarrow> 'f VectorWithId list \<Rightarrow> nat \<Rightarrow> bool \<Rightarrow> 'f list list" where
  "ExtractVectorValue fl vector_with_ids dm nrm =
     map (\<lambda>v. if nrm then normalize_vector fl (float_values v) else float_values v)
       vector_with_ids"

subsection \<open>VectorIndexFlat\<close>

text \<open>
  The constructor reads the metric type and the dimension of the flat parameter, clears
  the normalisation flag, and picks the raw index by metric type.
\<close>

definition VectorIndexFlat_new :: "MetricType \<Rightarrow> nat \<Rightarrow> 'f VectorIndexFlat" where
  "VectorIndexFlat_new mt dm =
     (let (nrm, raw) =
            (if METRIC_TYPE_L2 = mt then (False, METRIC_L2)
             else if METRIC_TYPE_INNER_PRODUCT = mt then (False, METRIC_INNER_PRODUCT)
             else if METRIC_TYPE_COSINE = mt then (True, METRIC_INNER_PRODUCT)
             else (False, METRIC_L2))
      in \<lparr>metric_type = mt, dimension = dm, normalize = nrm,
          index_id_map2 =
            \<lparr>index_metric = raw, index_d = dm, entries = [], rev_map = []\<rparr>\<rparr>)"

definition GetExistVectorIds :: "'f IndexIDMap2 \<Rightarrow> int list \<Rightarrow> int list" where
  "GetExistVectorIds ix ids = filter (\<lambda>i. map_of (rev_map ix) i \<noteq> None) ids"

text \<open>
  \<^verbatim>\<open>AddOrUpsert\<close> ignores its \<^verbatim>\<open>is_upsert\<close> argument. Everything from the emptiness
  test of the reverse map to the addition runs under one write guard; the sequential
  model makes that one step.
\<close>

definition AddOrUpsert ::
  "'f float_ops \<Rightarrow> 'f VectorIndexFlat \<Rightarrow> 'f VectorWithId list \<Rightarrow> status \<times> 'f VectorIndexFlat" where
  "AddOrUpsert fl vi vector_with_ids =
     (if vector_with_ids = [] then (EILLEGAL_PARAMTETERS, vi)
      else if \<not> ok (CheckVectorDimension vector_with_ids (dimension vi))
      then (CheckVectorDimension vector_with_ids (dimension vi), vi)
      else
        let ids = ExtractVectorId vector_with_ids in
        if \<not> ok (CheckVectorIdDuplicated ids) then (CheckVectorIdDuplicated ids, vi)
        else
          let vector_values = ExtractVectorValue fl vector_with_ids (dimension vi) (normalize vi);
              ix = index_id_map2 vi;
              ix1 = (if rev_map ix \<noteq> [] then
                       (let internal_ids = GetExistVectorIds ix ids
                        in if internal_ids \<noteq> [] then faiss_remove_ids internal_ids ix else ix)
                     else ix);
              ix2 = faiss_add_with_ids vector_values ids ix1
          in (OK, vi\<lparr>index_id_map2 := ix2\<rparr>))"

definition Upsert ::
  "'f float_ops \<Rightarrow> 'f VectorIndexFlat \<Rightarrow> 'f VectorWithId list \<Rightarrow> status \<times> 'f VectorIndexFlat" where
  "Upsert fl vi vector_with_ids = AddOrUpsert fl vi vector_with_ids"

definition Add ::
  "'f float_ops \<Rightarrow> 'f VectorIndexFlat \<Rightarrow> 'f VectorWithId list \<Rightarrow> status \<times> 'f VectorIndexFlat" where
  "Add fl vi vector_with_ids = AddOrUpsert fl vi vector_with_ids"

definition Delete :: "'f VectorIndexFlat \<Rightarrow> int list \<Rightarrow> status \<times> 'f VectorIndexFlat" where
  "Delete vi delete_ids =
     (if delete_ids = [] then (OK, vi)
      else
        let ix = index_id_map2 vi in
        if rev_map ix \<noteq> [] then
          (let internal_ids = GetExistVectorIds ix delete_ids in
           if internal_ids \<noteq> [] then
             (let ix1 = faiss_remove_ids internal_ids ix;
                  remove_count = length (entries ix) - length (entries ix1)
              in if 0 = remove_count then (EVECTOR_INVALID, vi\<lparr>index_id_map2 := ix1\<rparr>)
                 else (OK, vi\<lparr>index_id_map2 := ix1\<rparr>))
           else (OK, vi))
        else (OK, vi))"

text \<open>
  \<^verbatim>\<open>Search\<close> and \<^verbatim>\<open>RangeSearch\<close> return the status, the result vector (an
  output parameter of the source, passed in as \<open>results\<close>) and the list of calls made
  to the faiss index. \<open>topk\<close> is a \<^verbatim>\<open>uint32_t\<close>.
\<close>

definition Search ::
  "'f float_ops \<Rightarrow> ('f, 'rs, 'r) collaborators \<Rightarrow> 'f VectorIndexFlat \<Rightarrow> 'f VectorWithId list \<Rightarrow> nat
     \<Rightarrow> FilterFunctor list \<Rightarrow> 'r list \<Rightarrow> status \<times> 'r list \<times> 'f faiss_call list" where
  "Search fl co vi vector_with_ids topk filters results =
     (if vector_with_ids = [] then (EILLEGAL_PARAMTETERS, results, [])
      else if topk \<le> 0 then (OK, results, [])
      else if \<not> ok (CheckVectorDimension vector_with_ids (dimension vi))
      then (CheckVectorDimension vector_with_ids (dimension vi), results, [])
      else
        let vector_values = ExtractVectorValue fl vector_with_ids (dimension vi) (normalize vi);
            call = (if filters \<noteq> []
                    then search_call (length vector_with_ids) vector_values topk (Some filters)
                    else search_call (length vector_with_ids) vector_values topk None);
            answer = faiss_search co (index_id_map2 vi) call
        in (OK,
            FillSearchResult co vector_with_ids topk answer (metric_type vi) (dimension vi) results,
            [call]))"

definition RangeSearch ::
  "'f float_ops \<Rightarrow> ('f, 'rs, 'r) collaborators \<Rightarrow> 'f VectorIndexFlat \<Rightarrow> 'f VectorWithId list \<Rightarrow> 'f
     \<Rightarrow> FilterFunctor list \<Rightarrow> 'r list \<Rightarrow> status \<times> 'r list \<times> 'f faiss_call list" where
  "RangeSearch fl co vi vector_with_ids radius0 filters results =
     (if vector_with_ids = [] then (EILLEGAL_PARAMTETERS, results, [])
      else if \<not> ok (CheckVectorDimension vector_with_ids (dimension vi))
      then (CheckVectorDimension vector_with_ids (dimension vi), results, [])
      else
        let vector_values = ExtractVectorValue fl vector_with_ids (dimension vi) (normalize vi);
            radius = (if metric_type vi = METRIC_TYPE_COSINE
                         \<or> metric_type vi = METRIC_TYPE_INNER_PRODUCT
                      then f_sub fl (f_one fl) radius0 else radius0);
            params = (if filters \<noteq> [] then Some filters else None);
            call = range_search_call (length vector_with_ids) vector_values radius params
        in case faiss_range_search co (index_id_map2 vi) call of
             Inl e \<Rightarrow> (EINTERNAL, results, [call])
           | Inr range_search_result \<Rightarrow>
               (OK,
                FillRangeSearchResult co range_search_result (metric_type vi) (dimension vi) results,
                [call]))"

subsection \<open>The invariant of the id map and the reachable indexes\<close>

text \<open>
  faiss keeps the reverse map of an \<^verbatim>\<open>IndexIDMap2\<close> equal to what
  \<^verbatim>\<open>construct_rev_map\<close> builds from \<^verbatim>\<open>id_map\<close>: an empty index starts with both empty,
  and addition, removal and loading from a file re-establish it.
\<close>

definition IndexIDMap2_wf :: "'f IndexIDMap2 \<Rightarrow> bool" where
  "IndexIDMap2_wf ix =
     (map_of (rev_map ix) = map_of (construct_rev_map (map fst (entries ix))))"

text \<open>
  The states of a flat index built by the constructor for a metric type and a dimension
  and then changed by any sequence of \<^verbatim>\<open>AddOrUpsert\<close> and \<^verbatim>\<open>Delete\<close> calls, accepted or
  rejected.
\<close>

inductive flat_reachable ::
  "'f float_ops \<Rightarrow> MetricType \<Rightarrow> nat \<Rightarrow> 'f VectorIndexFlat \<Rightarrow> bool"
  for fl :: "'f float_ops" and mt :: MetricType and dm :: nat where
  constructed: "flat_reachable fl mt dm (VectorIndexFlat_new mt dm)"
| added: "flat_reachable fl mt dm vi \<Longrightarrow>
          flat_reachable fl mt dm (snd (AddOrUpsert fl vi vector_with_ids))"
| deleted: "flat_reachable fl mt dm vi \<Longrightarrow>
            flat_reachable fl mt dm (snd (Delete vi delete_ids))"

subsection \<open>Example inputs of the flat index\<close>

text \<open>
  Concrete collaborators for evaluating the model on examples: floats are taken to be
  reals, the normalisation divides by the Euclidean norm, the faiss searches answer
  nothing and the result converters leave the result list as it is.
\<close>

definition real_float_ops :: "real float_ops" where
  "real_float_ops =
     \<lparr>f_one = 1, f_sub = (\<lambda>a b. a - b),
      normalize_vector = (\<lambda>v. map (\<lambda>x. x / sqrt (sum_list (map (\<lambda>y. y * y) v))) v)\<rparr>"

definition silent_collaborators :: "(real, unit, unit) collaborators" where
  "silent_collaborators =
     \<lparr>faiss_search = (\<lambda>ix c. ([], [])),
      faiss_range_search = (\<lambda>ix c. Inr ()),
      FillSearchResult = (\<lambda>q k a m d r. r),
      FillRangeSearchResult = (\<lambda>a m d r. r)\<rparr>"

text \<open>An L2 index of dimension 2 that holds the ids 1 and 2.\<close>

definition example_index :: "real VectorIndexFlat" where
  "example_index =
     \<lparr>metric_type = METRIC_TYPE_L2, dimension = 2, normalize = False,
      index_id_map2 =
        \<lparr>index_metric = METRIC_L2, index_d = 2,
         entries = [(1, [1, 0]), (2, [0, 1])], rev_map = [(1, 0), (2, 1)]\<rparr>\<rparr>"

section \<open>The document service\<close>

subsection \<open>Flags, collaborators and requests\<close>

text \<open>
  The gflags the service reads. The first five are defined in the service, with the
  defaults that \<open>default_flags\<close> gives them; the last three are declared there and
  defined elsewhere, so \<open>default_flags\<close> takes their values as arguments.
\<close>

record flags =
  FLAGS_document_max_batch_count :: int
  FLAGS_document_max_request_size :: int
  FLAGS_enable_async_document_search :: bool
  FLAGS_enable_async_document_count :: bool
  FLAGS_enable_async_document_operation :: bool
  FLAGS_max_prewrite_count :: int
  FLAGS_stream_message_max_limit_size :: int
  FLAGS_document_max_background_task_count :: int

definition default_flags :: "int \<Rightarrow> int \<Rightarrow> int \<Rightarrow> flags" where
  "default_flags max_prewrite_count stream_message_max_limit_size
       document_max_background_task_count =
     \<lparr>FLAGS_document_max_batch_count = 4096,
      FLAGS_document_max_request_size = 33554432,
      FLAGS_enable_async_document_search = True,
      FLAGS_enable_async_document_count = True,
      FLAGS_enable_async_document_operation = True,
      FLAGS_max_prewrite_count = max_prewrite_count,
      FLAGS_stream_message_max_limit_size = stream_message_max_limit_size,
      FLAGS_document_max_background_task_count = document_max_background_task_count\<rparr>"

text \<open>
  A \<^verbatim>\<open>size_t\<close> compared with an \<^verbatim>\<open>int64_t\<close> flag converts the flag to unsigned
  64 bits.
\<close>

definition to_uint64 :: "int \<Rightarrow> int" where
  "to_uint64 x = x mod 2 ^ 64"

text \<open>
  What the validation functions ask of code whose source is not at hand
  (\<^verbatim>\<open>ServiceHelper\<close>, \<^verbatim>\<open>Storage\<close>, the document index wrapper of the region and
  \<^verbatim>\<open>DocumentCodec::UnPackageDocumentId\<close>), for the request and region at hand. Each
  answer is an input of the model, so every theorem holds whatever these answer.
\<close>

record service_env =
  region_is_nullptr :: bool
  ValidateRegionEpoch :: status
  ValidateLeader :: status
  IsReady :: bool
  IsBuildError :: bool
  ValidateClusterReadOnly :: status
  ValidateRegionState :: status
  ValidateDocumentRegion :: "int list \<Rightarrow> status"
  ValidateRegion :: "string list \<Rightarrow> status"
  ValidateRange :: status
  ValidateRangeInRange :: status
  UnPackageDocumentId :: "string \<Rightarrow> int"
  CheckRange :: bool

text \<open>
  Modelled from the spec: the source of \<^verbatim>\<open>DocumentCodec::IsLegalDocumentId\<close>
  (\<^verbatim>\<open>document/codec.h\<close>) is not at hand. The spec: the id of a document must be
  \<^verbatim>\<open>> 0\<close> and \<^verbatim>\<open>< INT64_MAX\<close>; the message of the validation that calls it:
  the id is not allowed to be zero, \<^verbatim>\<open>INT64_MAX\<close> or negative.
\<close>

definition IsLegalDocumentId :: "int \<Rightarrow> bool" where
  "IsLegalDocumentId v = (0 < v \<and> v < INT64_MAX)"

text \<open>
  The requests, reduced to the fields the validation reads. \<^verbatim>\<open>ByteSizeLong()\<close> is the
  serialised size of the whole message and is kept as a field.
\<close>

record DocumentWithId =
  document_id :: int
  document_data_empty :: bool

record DocumentAddRequest =
  add_region_id :: int
  add_documents :: "DocumentWithId list"
  add_ByteSizeLong :: nat
  add_ttl :: int
  add_is_update :: bool

record DocumentDeleteRequest =
  delete_region_id :: int
  delete_ids :: "int list"

record DocumentBatchQueryRequest =
  query_region_id :: int
  query_document_ids :: "int list"
  query_ts :: int

record DocumentSearchRequest =
  search_region_id :: int
  search_top_n :: int

record DocumentSearchAllRequest =
  search_all_region_id :: int
  search_all_stream_limit :: int

record TxnScanRequest =
  scan_limit :: int
  scan_stream_limit :: int
  scan_start_ts :: int
  scan_has_coprocessor :: bool
  scan_snapshot_isolation :: bool

datatype Op = Op_None | Op_Put | Op_Delete | Op_PutIfAbsent | Op_Rollback | Op_Lock | Op_CheckNotExists

record Mutation =
  mutation_op :: Op
  mutation_key :: string
  mutation_document :: DocumentWithId

record TxnPrewriteRequest =
  prewrite_mutations :: "Mutation list"
  prewrite_primary_lock :: string
  prewrite_start_ts :: int
  prewrite_lock_ttl :: int
  prewrite_txn_size :: int
  prewrite_ByteSizeLong :: nat

subsection \<open>Validation\<close>

definition ValidateDocumentBatchQueryRequest ::
  "flags \<Rightarrow> service_env \<Rightarrow> DocumentBatchQueryRequest \<Rightarrow> status" where
  "ValidateDocumentBatchQueryRequest fs env request =
     (if \<not> ok (ValidateRegionEpoch env) then ValidateRegionEpoch env
      else if query_region_id request = 0 then EILLEGAL_PARAMTETERS
      else if query_document_ids request = [] then EILLEGAL_PARAMTETERS
      else if int (length (query_document_ids request)) > FLAGS_document_max_batch_count fs
      then EDOCUMENT_EXCEED_MAX_BATCH_COUNT
      else if query_ts request < 0 then EILLEGAL_PARAMTETERS
      else if \<not> ok (ValidateLeader env) then ValidateLeader env
      else ValidateDocumentRegion env (query_document_ids request))"

text \<open>
  The product \<^verbatim>\<open>FLAGS_document_max_batch_count * 10\<close> is taken in the integers; it
  leaves the 64-bit range only for a flag beyond \<open>2 ^ 63 div 10\<close>.
\<close>

definition ValidateDocumentSearchRequest ::
  "flags \<Rightarrow> service_env \<Rightarrow> DocumentSearchRequest \<Rightarrow> status" where
  "ValidateDocumentSearchRequest fs env request =
     (if region_is_nullptr env then EREGION_NOT_FOUND
      else if \<not> ok (ValidateRegionEpoch env) then ValidateRegionEpoch env
      else if search_region_id request = 0 then EILLEGAL_PARAMTETERS
      else if search_top_n request > FLAGS_document_max_batch_count fs
      then EDOCUMENT_EXCEED_MAX_BATCH_COUNT
      else if search_top_n request > FLAGS_document_max_batch_count fs * 10
      then EDOCUMENT_EXCEED_MAX_BATCH_COUNT
      else if search_top_n request < 0 then EILLEGAL_PARAMTETERS
      else if \<not> ok (ValidateLeader env) then ValidateLeader env
      else if \<not> IsReady env
      then (if IsBuildError env then EDOCUMENT_INDEX_BUILD_ERROR else EDOCUMENT_INDEX_NOT_READY)
      else ValidateRegionState env)"

definition ValidateDocumentSearchAllRequest ::
  "flags \<Rightarrow> service_env \<Rightarrow> DocumentSearchAllRequest \<Rightarrow> status" where
  "ValidateDocumentSearchAllRequest fs env request =
     (if region_is_nullptr env then EREGION_NOT_FOUND
      else if \<not> ok (ValidateRegionEpoch env) then ValidateRegionEpoch env
      else if search_all_region_id request = 0 then EILLEGAL_PARAMTETERS
      else if search_all_stream_limit request \<le> 0 then EILLEGAL_PARAMTETERS
      else if search_all_stream_limit request > FLAGS_stream_message_max_limit_size fs
      then EILLEGAL_PARAMTETERS
      else if \<not> ok (ValidateLeader env) then ValidateLeader env
      else if \<not> IsReady env
      then (if IsBuildError env then EDOCUMENT_INDEX_BUILD_ERROR else EDOCUMENT_INDEX_NOT_READY)
      else ValidateRegionState env)"

definition ValidateDocumentAddRequest ::
  "flags \<Rightarrow> service_env \<Rightarrow> DocumentAddRequest \<Rightarrow> status" where
  "ValidateDocumentAddRequest fs env request =
     (if \<not> ok (ValidateRegionEpoch env) then ValidateRegionEpoch env
      else if add_region_id request = 0 then EILLEGAL_PARAMTETERS
      else if add_documents request = [] then EDOCUMENT_EMPTY
      else if int (length (add_documents request)) > FLAGS_document_max_batch_count fs
      then EDOCUMENT_EXCEED_MAX_BATCH_COUNT
      else if int (add_ByteSizeLong request) > to_uint64 (FLAGS_document_max_request_size fs)
      then EDOCUMENT_EXCEED_MAX_REQUEST_SIZE
      else if add_ttl request < 0 then EILLEGAL_PARAMTETERS
      else if \<not> ok (ValidateLeader env) then ValidateLeader env
      else if \<not> IsReady env
      then (if IsBuildError env then EDOCUMENT_INDEX_BUILD_ERROR else EDOCUMENT_INDEX_NOT_READY)
      else if list_ex (\<lambda>document. \<not> IsLegalDocumentId (document_id document))
                (add_documents request)
      then EILLEGAL_PARAMTETERS
      else if \<not> ok (ValidateClusterReadOnly env) then ValidateClusterReadOnly env
      else ValidateDocumentRegion env (map document_id (add_documents request)))"

definition ValidateDocumentDeleteRequest ::
  "flags \<Rightarrow> service_env \<Rightarrow> DocumentDeleteRequest \<Rightarrow> status" where
  "ValidateDocumentDeleteRequest fs env request =
     (if \<not> ok (ValidateRegionEpoch env) then ValidateRegionEpoch env
      else if delete_region_id request = 0 then EILLEGAL_PARAMTETERS
      else if delete_ids request = [] then EDOCUMENT_EMPTY
      else if int (length (delete_ids request)) > FLAGS_document_max_batch_count fs
      then EDOCUMENT_EXCEED_MAX_BATCH_COUNT
      else if \<not> ok (ValidateLeader env) then ValidateLeader env
      else if \<not> IsReady env
      then (if IsBuildError env then EDOCUMENT_INDEX_BUILD_ERROR else EDOCUMENT_INDEX_NOT_READY)
      else ValidateDocumentRegion env (delete_ids request))"

definition ValidateTxnScanRequestIndex :: "flags \<Rightarrow> service_env \<Rightarrow> TxnScanRequest \<Rightarrow> status" where
  "ValidateTxnScanRequestIndex fs env request =
     (if scan_limit request \<le> 0 \<and> scan_stream_limit request \<le> 0 then EILLEGAL_PARAMTETERS
      else if scan_limit request > FLAGS_stream_message_max_limit_size fs
              \<or> scan_stream_limit request > FLAGS_stream_message_max_limit_size fs
      then EILLEGAL_PARAMTETERS
      else if scan_start_ts request < 0 then EILLEGAL_PARAMTETERS
      else if \<not> ok (ValidateRegionEpoch env) then ValidateRegionEpoch env
      else if region_is_nullptr env then EREGION_NOT_FOUND
      else if \<not> ok (ValidateRange env) then ValidateRange env
      else if \<not> ok (ValidateRangeInRange env) then ValidateRangeInRange env
      else if \<not> ok (ValidateRegionState env) then ValidateRegionState env
      else if scan_has_coprocessor request then EILLEGAL_PARAMTETERS
      else OK)"

text \<open>
  The second loop of \<^verbatim>\<open>ValidateDocumentTxnPrewriteRequest\<close>, over the mutations in
  order; \<open>OK\<close> stands for leaving the loop without a return.
\<close>

fun prewrite_mutation_loop :: "service_env \<Rightarrow> Mutation list \<Rightarrow> status" where
  "prewrite_mutation_loop env [] = OK"
| "prewrite_mutation_loop env (mutation # rest) =
     (let key_id = UnPackageDocumentId env (mutation_key mutation) in
      if \<not> IsLegalDocumentId key_id then EILLEGAL_PARAMTETERS
      else if mutation_op mutation = Op_Put \<or> mutation_op mutation = Op_PutIfAbsent then
        (if \<not> IsLegalDocumentId key_id then EILLEGAL_PARAMTETERS
         else if document_id (mutation_document mutation) \<noteq> key_id then EILLEGAL_PARAMTETERS
         else if document_data_empty (mutation_document mutation) then EDOCUMENT_EMPTY
         else prewrite_mutation_loop env rest)
      else if mutation_op mutation = Op_Delete \<or> mutation_op mutation = Op_CheckNotExists then
        (if \<not> IsLegalDocumentId key_id then EILLEGAL_PARAMTETERS
         else prewrite_mutation_loop env rest)
      else EILLEGAL_PARAMTETERS)"

definition ValidateDocumentTxnPrewriteRequest ::
  "flags \<Rightarrow> service_env \<Rightarrow> TxnPrewriteRequest \<Rightarrow> status" where
  "ValidateDocumentTxnPrewriteRequest fs env request =
     (if \<not> ok (ValidateRegionEpoch env) then ValidateRegionEpoch env
      else if length (prewrite_mutations request) = 0 then EILLEGAL_PARAMTETERS
      else if int (length (prewrite_mutations request)) > FLAGS_max_prewrite_count fs
      then EILLEGAL_PARAMTETERS
      else if prewrite_primary_lock request = [] then EILLEGAL_PARAMTETERS
      else if prewrite_start_ts request = 0 then EILLEGAL_PARAMTETERS
      else if prewrite_lock_ttl request = 0 then EILLEGAL_PARAMTETERS
      else if prewrite_txn_size request = 0 then EILLEGAL_PARAMTETERS
      else if list_ex (\<lambda>mutation. mutation_key mutation = []) (prewrite_mutations request)
      then EKEY_EMPTY
      else if \<not> ok (ValidateRegion env (map mutation_key (prewrite_mutations request)))
      then ValidateRegion env (map mutation_key (prewrite_mutations request))
      else if int (length (prewrite_mutations request)) > FLAGS_document_max_batch_count fs
      then EDOCUMENT_EXCEED_MAX_BATCH_COUNT
      else if int (prewrite_ByteSizeLong request) > to_uint64 (FLAGS_document_max_request_size fs)
      then EDOCUMENT_EXCEED_MAX_REQUEST_SIZE
      else if \<not> ok (ValidateLeader env) then ValidateLeader env
      else if \<not> ok (ValidateClusterReadOnly env) then ValidateClusterReadOnly env
      else if \<not> IsReady env
      then (if IsBuildError env then EDOCUMENT_INDEX_BUILD_ERROR else EDOCUMENT_INDEX_NOT_READY)
      else if \<not> ok (prewrite_mutation_loop env (prewrite_mutations request))
      then prewrite_mutation_loop env (prewrite_mutations request)
      else ValidateDocumentRegion env
             (map (\<lambda>mutation. UnPackageDocumentId env (mutation_key mutation))
                (prewrite_mutations request)))"

subsection \<open>The request bodies\<close>

text \<open>
  What a \<^verbatim>\<open>Do...\<close> function leaves behind: the error code it sets in the response (if
  any), the results and the stream flag it adds to the response (which the RPC framework
  hands over empty), the number of times the done closure is run before the function
  returns, and the argument of its call to the storage engine (\<open>None\<close>: the engine is
  not called). The engine is a parameter: a function from the call to its status and
  answer.
\<close>

record ('call, 'r) do_outcome =
  response_error :: "Errno option"
  response_results :: "'r list"
  response_stream_has_more :: "bool option"
  done_run :: nat
  engine_call :: "'call option"

definition DoDocumentBatchQuery ::
  "flags \<Rightarrow> service_env \<Rightarrow> (int list \<Rightarrow> status \<times> 'r list) \<Rightarrow> DocumentBatchQueryRequest
     \<Rightarrow> (int list, 'r) do_outcome" where
  "DoDocumentBatchQuery fs env storage request =
     (let status = ValidateDocumentBatchQueryRequest fs env request in
      if \<not> ok status
      then \<lparr>response_error = Some status, response_results = [],
            response_stream_has_more = None, done_run = 1, engine_call = None\<rparr>
      else
        let (status, document_with_ids) = storage (query_document_ids request) in
        if \<not> ok status
        then \<lparr>response_error = Some status, response_results = [],
              response_stream_has_more = None, done_run = 1,
              engine_call = Some (query_document_ids request)\<rparr>
        else \<lparr>response_error = None, response_results = document_with_ids,
              response_stream_has_more = None, done_run = 1,
              engine_call = Some (query_document_ids request)\<rparr>)"

definition DoDocumentSearch ::
  "flags \<Rightarrow> service_env \<Rightarrow> (DocumentSearchRequest \<Rightarrow> status \<times> 'r list) \<Rightarrow> DocumentSearchRequest
     \<Rightarrow> (DocumentSearchRequest, 'r) do_outcome" where
  "DoDocumentSearch fs env storage request =
     (let status = ValidateDocumentSearchRequest fs env request in
      if \<not> ok status
      then \<lparr>response_error = Some status, response_results = [],
            response_stream_has_more = None, done_run = 1, engine_call = None\<rparr>
      else if search_top_n request = 0
      then \<lparr>response_error = None, response_results = [],
            response_stream_has_more = None, done_run = 1, engine_call = None\<rparr>
      else
        let (status, document_results) = storage request in
        if \<not> ok status
        then \<lparr>response_error = Some status, response_results = [],
              response_stream_has_more = None, done_run = 1, engine_call = Some request\<rparr>
        else \<lparr>response_error = None, response_results = document_results,
              response_stream_has_more = None, done_run = 1, engine_call = Some request\<rparr>)"

text \<open>
  After a successful engine call \<^verbatim>\<open>DoDocumentSearchAll\<close> and
  \<^verbatim>\<open>DoTxnScanDocument\<close> copy the stream of the context into the response; the source
  aborts the process when the engine left no stream, and the model takes the engine to
  have opened one.
\<close>

definition DoDocumentSearchAll ::
  "flags \<Rightarrow> service_env \<Rightarrow> (DocumentSearchAllRequest \<Rightarrow> status \<times> bool \<times> 'r list)
     \<Rightarrow> DocumentSearchAllRequest \<Rightarrow> (DocumentSearchAllRequest, 'r) do_outcome" where
  "DoDocumentSearchAll fs env storage request =
     (let status = ValidateDocumentSearchAllRequest fs env request in
      if \<not> ok status
      then \<lparr>response_error = Some status, response_results = [],
            response_stream_has_more = None, done_run = 1, engine_call = None\<rparr>
      else
        let (status, has_more, document_results) = storage request in
        if \<not> ok status
        then \<lparr>response_error = Some status, response_results = [],
              response_stream_has_more = None, done_run = 1, engine_call = Some request\<rparr>
        else \<lparr>response_error = None, response_results = document_results,
              response_stream_has_more = Some has_more, done_run = 1,
              engine_call = Some request\<rparr>)"

text \<open>
  The write bodies hand the done closure to the engine when \<open>is_sync\<close> is false: then
  the function runs it itself only when the engine call fails.
\<close>

definition DoDocumentAdd ::
  "flags \<Rightarrow> service_env \<Rightarrow> (DocumentWithId list \<times> bool \<Rightarrow> status) \<Rightarrow> DocumentAddRequest \<Rightarrow> bool
     \<Rightarrow> (DocumentWithId list \<times> bool, unit) do_outcome" where
  "DoDocumentAdd fs env storage request is_sync =
     (let status = ValidateDocumentAddRequest fs env request in
      if \<not> ok status
      then \<lparr>response_error = Some status, response_results = [],
            response_stream_has_more = None, done_run = 1, engine_call = None\<rparr>
      else
        let documents = add_documents request;
            status = storage (documents, add_is_update request) in
        if \<not> ok status
        then \<lparr>response_error = Some status, response_results = [],
              response_stream_has_more = None, done_run = 1,
              engine_call = Some (documents, add_is_update request)\<rparr>
        else \<lparr>response_error = None, response_results = [],
              response_stream_has_more = None, done_run = (if is_sync then 1 else 0),
              engine_call = Some (documents, add_is_update request)\<rparr>)"

definition DoDocumentDelete ::
  "flags \<Rightarrow> service_env \<Rightarrow> (int list \<Rightarrow> status) \<Rightarrow> DocumentDeleteRequest \<Rightarrow> bool
     \<Rightarrow> (int list, unit) do_outcome" where
  "DoDocumentDelete fs env storage request is_sync =
     (let status = ValidateDocumentDeleteRequest fs env request in
      if \<not> ok status
      then \<lparr>response_error = Some status, response_results = [],
            response_stream_has_more = None, done_run = 1, engine_call = None\<rparr>
      else
        let status = storage (delete_ids request) in
        if \<not> ok status
        then \<lparr>response_error = Some status, response_results = [],
              response_stream_has_more = None, done_run = 1,
              engine_call = Some (delete_ids request)\<rparr>
        else \<lparr>response_error = None, response_results = [],
              response_stream_has_more = None, done_run = (if is_sync then 1 else 0),
              engine_call = Some (delete_ids request)\<rparr>)"

text \<open>
  \<^verbatim>\<open>DoTxnPrewriteDocument\<close> takes the latches of the document ids between validation
  and the engine call and releases them on return; the sequential model has no other
  holder.
\<close>

definition DoTxnPrewriteDocument ::
  "flags \<Rightarrow> service_env \<Rightarrow> (Mutation list \<Rightarrow> status) \<Rightarrow> TxnPrewriteRequest \<Rightarrow> bool
     \<Rightarrow> (Mutation list, unit) do_outcome" where
  "DoTxnPrewriteDocument fs env storage request is_sync =
     (let status = ValidateDocumentTxnPrewriteRequest fs env request in
      if \<not> ok status
      then \<lparr>response_error = Some status, response_results = [],
            response_stream_has_more = None, done_run = 1, engine_call = None\<rparr>
      else
        let status = storage (prewrite_mutations request) in
        if \<not> ok status
        then \<lparr>response_error = Some status, response_results = [],
              response_stream_has_more = None, done_run = 1,
              engine_call = Some (prewrite_mutations request)\<rparr>
        else \<lparr>response_error = None, response_results = [],
              response_stream_has_more = None, done_run = (if is_sync then 1 else 0),
              engine_call = Some (prewrite_mutations request)\<rparr>)"

text \<open>
  \<^verbatim>\<open>DoTxnScanDocument\<close> first raises the transaction-access watermark of the region.
  A value the engine returns is empty, parses into a document or does not parse; an
  empty value adds a default document (\<open>None\<close>) to the response, and the first value
  that does not parse ends the function with \<^verbatim>\<open>EINTERNAL\<close>, leaving in the response
  the documents added so far. The end key and the transaction result copied into the
  response are left out.
\<close>

datatype 'd scanned_value = empty_value | parsed 'd | unparsable

fun parse_documents ::
  "'d scanned_value list \<Rightarrow> 'd option list \<Rightarrow> 'd option list + 'd option list" where
  "parse_documents [] documents = Inr documents"
| "parse_documents (empty_value # kvs) documents = parse_documents kvs (documents @ [None])"
| "parse_documents (parsed d # kvs) documents = parse_documents kvs (documents @ [Some d])"
| "parse_documents (unparsable # kvs) documents = Inl documents"

definition DoTxnScanDocument ::
  "flags \<Rightarrow> service_env \<Rightarrow> (TxnScanRequest \<Rightarrow> status \<times> 'd scanned_value list \<times> bool) \<Rightarrow> Region
     \<Rightarrow> TxnScanRequest \<Rightarrow> Region \<times> (TxnScanRequest, 'd option) do_outcome" where
  "DoTxnScanDocument fs env storage region request =
     (SetTxnAccessMaxTs (scan_start_ts request) region,
      let status = ValidateTxnScanRequestIndex fs env request in
      if \<not> ok status
      then (if ERANGE_INVALID = status
            then \<lparr>response_error = None, response_results = [],
                  response_stream_has_more = None, done_run = 1, engine_call = None\<rparr>
            else \<lparr>response_error = Some status, response_results = [],
                  response_stream_has_more = None, done_run = 1, engine_call = None\<rparr>)
      else if scan_snapshot_isolation request \<and> CheckRange env
      then \<lparr>response_error = Some ETXN_MEMORY_LOCK_CONFLICT, response_results = [],
            response_stream_has_more = None, done_run = 1, engine_call = None\<rparr>
      else
        let (status, kvs, has_more) = storage request in
        if \<not> ok status
        then \<lparr>response_error = Some status, response_results = [],
              response_stream_has_more = None, done_run = 1, engine_call = Some request\<rparr>
        else
          (case parse_documents kvs [] of
             Inl documents \<Rightarrow>
               \<lparr>response_error = Some EINTERNAL, response_results = documents,
                response_stream_has_more = None, done_run = 1, engine_call = Some request\<rparr>
           | Inr documents \<Rightarrow>
               \<lparr>response_error = None, response_results = documents,
                response_stream_has_more = Some has_more, done_run = 1,
                engine_call = Some request\<rparr>))"

subsection \<open>The RPC entry points\<close>

text \<open>
  Every method of \<^verbatim>\<open>DocumentServiceImpl\<close> wraps the done closure in a
  \<^verbatim>\<open>ServiceClosure\<close> and then either answers at once, runs the body on the RPC thread,
  or hands the body to a worker set. What the method itself does is recorded as: the
  error code it sets in the response, how often it runs the done closure, whether it ran
  the body inline, which \<^verbatim>\<open>Execute\<close> call it made, and whether the worker set took the
  task. The body runs the done closure itself when it is executed; that is not counted
  here.
\<close>

datatype worker_set = read_worker_set | write_worker_set

datatype dispatch = ExecuteRR | ExecuteLeastQueue

record handler_env =
  GetRegion_is_nullptr :: bool
  GetBackgroundPendingTaskCount :: int
  handler_validation :: status
  Execute :: "worker_set \<Rightarrow> dispatch \<Rightarrow> bool"

record handler_result =
  handler_error :: "Errno option"
  handler_done_run :: nat
  ran_inline :: bool
  execute_call :: "(worker_set \<times> dispatch) option"
  task_queued :: bool

definition IsBackgroundPendingTaskCountExceed :: "handler_env \<Rightarrow> flags \<Rightarrow> bool" where
  "IsBackgroundPendingTaskCountExceed env fs =
     (GetBackgroundPendingTaskCount env > FLAGS_document_max_background_task_count fs)"

text \<open>The blocks the methods are made of, in the words of the source.\<close>

definition reply_region_not_found :: handler_result where
  \<comment> \<open>\<^verbatim>\<open>brpc::ClosureGuard done_guard(svr_done); return;\<close>\<close>
  "reply_region_not_found =
     \<lparr>handler_error = None, handler_done_run = 1, ran_inline = False,
      execute_call = None, task_queued = False\<rparr>"

definition reply_background_full :: handler_result where
  \<comment> \<open>\<^verbatim>\<open>brpc::ClosureGuard done_guard(svr_done); SetError(..., EREQUEST_FULL, ...); return;\<close>\<close>
  "reply_background_full =
     \<lparr>handler_error = Some EREQUEST_FULL, handler_done_run = 1, ran_inline = False,
      execute_call = None, task_queued = False\<rparr>"

definition return_validation_error :: "status \<Rightarrow> handler_result" where
  \<comment> \<open>\<^verbatim>\<open>SetError(..., status.error_code(), ...); return;\<close> with no closure guard\<close>
  "return_validation_error status =
     \<lparr>handler_error = Some status, handler_done_run = 0, ran_inline = False,
      execute_call = None, task_queued = False\<rparr>"

definition run_inline :: handler_result where
  \<comment> \<open>\<^verbatim>\<open>return Do...(storage_, controller, request, response, svr_done);\<close>\<close>
  "run_inline =
     \<lparr>handler_error = None, handler_done_run = 0, ran_inline = True,
      execute_call = None, task_queued = False\<rparr>"

definition run_in_queue :: "handler_env \<Rightarrow> worker_set \<Rightarrow> dispatch \<Rightarrow> handler_result" where
  \<comment> \<open>\<^verbatim>\<open>bool ret = set->Execute...(task); if (!ret) { ClosureGuard; SetError(EREQUEST_FULL); }\<close>\<close>
  "run_in_queue env ws d =
     (let ret = Execute env ws d in
      if \<not> ret
      then \<lparr>handler_error = Some EREQUEST_FULL, handler_done_run = 1, ran_inline = False,
            execute_call = Some (ws, d), task_queued = False\<rparr>
      else \<lparr>handler_error = None, handler_done_run = 0, ran_inline = False,
            execute_call = Some (ws, d), task_queued = True\<rparr>)"

definition DocumentBatchQuery :: "handler_env \<Rightarrow> flags \<Rightarrow> handler_result" where
  "DocumentBatchQuery env fs =
     (if GetRegion_is_nullptr env then reply_region_not_found
      else if \<not> FLAGS_enable_async_document_operation fs then run_inline
      else run_in_queue env read_worker_set ExecuteRR)"

definition DocumentSearch :: "handler_env \<Rightarrow> flags \<Rightarrow> handler_result" where
  "DocumentSearch env fs =
     (if GetRegion_is_nullptr env then reply_region_not_found
      else if \<not> FLAGS_enable_async_document_search fs then run_inline
      else run_in_queue env read_worker_set ExecuteLeastQueue)"

definition DocumentSearchAll :: "handler_env \<Rightarrow> flags \<Rightarrow> handler_result" where
  "DocumentSearchAll env fs =
     (if GetRegion_is_nullptr env then reply_region_not_found
      else if \<not> FLAGS_enable_async_document_search fs then run_inline
      else run_in_queue env read_worker_set ExecuteLeastQueue)"

definition DocumentAdd :: "handler_env \<Rightarrow> flags \<Rightarrow> handler_result" where
  "DocumentAdd env fs =
     (if GetRegion_is_nullptr env then reply_region_not_found
      else if IsBackgroundPendingTaskCountExceed env fs then reply_background_full
      else run_in_queue env write_worker_set ExecuteRR)"

definition DocumentDelete :: "handler_env \<Rightarrow> flags \<Rightarrow> handler_result" where
  "DocumentDelete env fs =
     (if GetRegion_is_nullptr env then reply_region_not_found
      else run_in_queue env write_worker_set ExecuteRR)"

definition DocumentGetBorderId :: "handler_env \<Rightarrow> flags \<Rightarrow> handler_result" where
  "DocumentGetBorderId env fs =
     (if GetRegion_is_nullptr env then reply_region_not_found
      else if \<not> FLAGS_enable_async_document_operation fs then run_inline
      else run_in_queue env read_worker_set ExecuteRR)"

definition DocumentScanQuery :: "handler_env \<Rightarrow> flags \<Rightarrow> handler_result" where
  "DocumentScanQuery env fs =
     (if GetRegion_is_nullptr env then reply_region_not_found
      else if \<not> FLAGS_enable_async_document_operation fs then run_inline
      else run_in_queue env read_worker_set ExecuteRR)"

definition DocumentGetRegionMetrics :: "handler_env \<Rightarrow> flags \<Rightarrow> handler_result" where
  "DocumentGetRegionMetrics env fs =
     (if GetRegion_is_nullptr env then reply_region_not_found
      else if \<not> FLAGS_enable_async_document_operation fs then run_inline
      else run_in_queue env read_worker_set ExecuteRR)"

definition DocumentCount :: "handler_env \<Rightarrow> flags \<Rightarrow> handler_result" where
  "DocumentCount env fs =
     (if GetRegion_is_nullptr env then reply_region_not_found
      else if \<not> FLAGS_enable_async_document_count fs then run_inline
      else run_in_queue env read_worker_set ExecuteRR)"

definition TxnGet :: "handler_env \<Rightarrow> flags \<Rightarrow> handler_result" where
  "TxnGet env fs =
     (if GetRegion_is_nullptr env then reply_region_not_found
      else run_in_queue env read_worker_set ExecuteRR)"

definition TxnScan :: "handler_env \<Rightarrow> flags \<Rightarrow> handler_result" where
  "TxnScan env fs =
     (if GetRegion_is_nullptr env then reply_region_not_found
      else run_in_queue env read_worker_set ExecuteRR)"

definition TxnPessimisticLock :: "handler_env \<Rightarrow> flags \<Rightarrow> handler_result" where
  "TxnPessimisticLock env fs =
     (if GetRegion_is_nullptr env then reply_region_not_found
      else run_in_queue env write_worker_set ExecuteRR)"

definition TxnPessimisticRollback :: "handler_env \<Rightarrow> flags \<Rightarrow> handler_result" where
  "TxnPessimisticRollback env fs =
     (if GetRegion_is_nullptr env then reply_region_not_found
      else run_in_queue env write_worker_set ExecuteRR)"

definition TxnPrewrite :: "handler_env \<Rightarrow> flags \<Rightarrow> handler_result" where
  "TxnPrewrite env fs =
     (if GetRegion_is_nullptr env then reply_region_not_found
      else if IsBackgroundPendingTaskCountExceed env fs then reply_background_full
      else run_in_queue env write_worker_set ExecuteRR)"

definition TxnCommit :: "handler_env \<Rightarrow> flags \<Rightarrow> handler_result" where
  "TxnCommit env fs =
     (if GetRegion_is_nullptr env then reply_region_not_found
      else if IsBackgroundPendingTaskCountExceed env fs then reply_background_full
      else run_in_queue env write_worker_set ExecuteRR)"

definition TxnCheckTxnStatus :: "handler_env \<Rightarrow> flags \<Rightarrow> handler_result" where
  "TxnCheckTxnStatus env fs =
     (if GetRegion_is_nullptr env then reply_region_not_found
      else if IsBackgroundPendingTaskCountExceed env fs then reply_background_full
      else if \<not> ok (handler_validation env) then return_validation_error (handler_validation env)
      else run_in_queue env write_worker_set ExecuteRR)"

definition TxnResolveLock :: "handler_env \<Rightarrow> flags \<Rightarrow> handler_result" where
  "TxnResolveLock env fs =
     (if GetRegion_is_nullptr env then reply_region_not_found
      else if IsBackgroundPendingTaskCountExceed env fs then reply_background_full
      else if \<not> ok (handler_validation env) then return_validation_error (handler_validation env)
      else run_in_queue env write_worker_set ExecuteRR)"

definition TxnBatchGet :: "handler_env \<Rightarrow> flags \<Rightarrow> handler_result" where
  "TxnBatchGet env fs =
     (if GetRegion_is_nullptr env then reply_region_not_found
      else run_in_queue env read_worker_set ExecuteRR)"

definition TxnBatchRollback :: "handler_env \<Rightarrow> flags \<Rightarrow> handler_result" where
  "TxnBatchRollback env fs =
     (if GetRegion_is_nullptr env then reply_region_not_found
      else run_in_queue env write_worker_set ExecuteRR)"

definition TxnScanLock :: "handler_env \<Rightarrow> flags \<Rightarrow> handler_result" where
  "TxnScanLock env fs =
     (if GetRegion_is_nullptr env then reply_region_not_found
      else run_in_queue env read_worker_set ExecuteRR)"

definition TxnHeartBeat :: "handler_env \<Rightarrow> flags \<Rightarrow> handler_result" where
  "TxnHeartBeat env fs =
     (if GetRegion_is_nullptr env then reply_region_not_found
      else run_in_queue env write_worker_set ExecuteRR)"

definition TxnGc :: "handler_env \<Rightarrow> flags \<Rightarrow> handler_result" where
  "TxnGc env fs =
     (if GetRegion_is_nullptr env then reply_region_not_found
      else if \<not> ok (handler_validation env) then return_validation_error (handler_validation env)
      else run_in_queue env write_worker_set ExecuteRR)"

definition TxnDeleteRange :: "handler_env \<Rightarrow> flags \<Rightarrow> handler_result" where
  "TxnDeleteRange env fs =
     (if GetRegion_is_nullptr env then reply_region_not_found
      else run_in_queue env write_worker_set ExecuteRR)"

definition BackupData :: "handler_env \<Rightarrow> flags \<Rightarrow> handler_result" where
  "BackupData env fs =
     (if GetRegion_is_nullptr env then reply_region_not_found
      else run_in_queue env write_worker_set ExecuteRR)"

definition RestoreData :: "handler_env \<Rightarrow> flags \<Rightarrow> handler_result" where
  "RestoreData env fs =
     (if GetRegion_is_nullptr env then reply_region_not_found
      else run_in_queue env write_worker_set ExecuteRR)"

definition TxnDump :: "handler_env \<Rightarrow> flags \<Rightarrow> handler_result" where
  "TxnDump env fs =
     (if GetRegion_is_nullptr env then reply_region_not_found
      else run_in_queue env read_worker_set ExecuteRR)"

definition Hello :: "handler_env \<Rightarrow> flags \<Rightarrow> handler_result" where
  "Hello env fs =
     run_in_queue env read_worker_set ExecuteRR"

definition GetMemoryInfo :: "handler_env \<Rightarrow> flags \<Rightarrow> handler_result" where
  "GetMemoryInfo env fs =
     run_in_queue env read_worker_set ExecuteRR"

text \<open>All methods of the document service, in the order of the source file.\<close>

definition document_service_methods :: "(handler_env \<Rightarrow> flags \<Rightarrow> handler_result) list" where
  "document_service_methods =
     [DocumentBatchQuery, DocumentSearch, DocumentSearchAll, DocumentAdd,
      DocumentDelete, DocumentGetBorderId, DocumentScanQuery, DocumentGetRegionMetrics,
      DocumentCount, TxnGet, TxnScan, TxnPessimisticLock,
      TxnPessimisticRollback, TxnPrewrite, TxnCommit, TxnCheckTxnStatus,
      TxnResolveLock, TxnBatchGet, TxnBatchRollback, TxnScanLock,
      TxnHeartBeat, TxnGc, TxnDeleteRange, BackupData,
      RestoreData, TxnDump, Hello, GetMemoryInfo]"

text \<open>
  The reply to a refused task: a result that records an \<^verbatim>\<open>Execute\<close> call which the
  worker set refused carries \<^verbatim>\<open>EREQUEST_FULL\<close>, one run of the done closure, and
  neither a queued task nor an inline run.
\<close>

definition queue_full_reply :: "handler_env \<Rightarrow> handler_result \<Rightarrow> bool" where
  "queue_full_reply env r =
     (case execute_call r of
        None \<Rightarrow> True
      | Some (ws, d) \<Rightarrow>
          Execute env ws d \<or>
          (handler_error r = Some EREQUEST_FULL \<and> handler_done_run r = 1
           \<and> \<not> task_queued r \<and> \<not> ran_inline r))"

subsection \<open>Example inputs\<close>

text \<open>
  Example surroundings of a method: the region is found, \<open>pending\<close> background tasks
  wait, the validation in the method succeeds and both worker sets take or refuse every
  task as \<open>accept\<close> says.
\<close>

definition example_handler_env :: "int \<Rightarrow> bool \<Rightarrow> handler_env" where
  "example_handler_env pending accept =
     \<lparr>GetRegion_is_nullptr = False, GetBackgroundPendingTaskCount = pending,
      handler_validation = OK, Execute = (\<lambda>ws d. accept)\<rparr>"

text \<open>
  Example surroundings of a validation: the region exists and is in a servable state,
  this store leads it, the epoch matches, the document index is ready, the cluster is
  writable, every id and key belongs to the region, and keys decode as \<open>decode\<close> says.
\<close>

definition example_service_env :: "(string \<Rightarrow> int) \<Rightarrow> service_env" where
  "example_service_env decode =
     \<lparr>region_is_nullptr = False, ValidateRegionEpoch = OK, ValidateLeader = OK,
      IsReady = True, IsBuildError = False, ValidateClusterReadOnly = OK,
      ValidateRegionState = OK, ValidateDocumentRegion = (\<lambda>ids. OK),
      ValidateRegion = (\<lambda>keys. OK), ValidateRange = OK, ValidateRangeInRange = OK,
      UnPackageDocumentId = decode, CheckRange = False\<rparr>"

text \<open>
  Example requests: an add of two documents, the second with id 0, and a prewrite of one
  put whose key decodes (by \<open>example_decode\<close>) to \<^verbatim>\<open>INT64_MAX\<close>.
\<close>

definition example_add_request :: DocumentAddRequest where
  "example_add_request =
     \<lparr>add_region_id = 1,
      add_documents = [\<lparr>document_id = 5, document_data_empty = False\<rparr>,
                       \<lparr>document_id = 0, document_data_empty = False\<rparr>],
      add_ByteSizeLong = 100, add_ttl = 0, add_is_update = False\<rparr>"

definition example_decode :: "string \<Rightarrow> int" where
  "example_decode key = (if key = ''max'' then 9223372036854775807 else 42)"

definition example_prewrite_request :: TxnPrewriteRequest where
  "example_prewrite_request =
     \<lparr>prewrite_mutations =
        [\<lparr>mutation_op = Op_Put, mutation_key = ''max'',
          mutation_document = \<lparr>document_id = 9223372036854775807, document_data_empty = False\<rparr>\<rparr>],
      prewrite_primary_lock = ''max'', prewrite_start_ts = 100, prewrite_lock_ttl = 3000,
      prewrite_txn_size = 1, prewrite_ByteSizeLong = 100\<rparr>"

text \<open>
  Example scans against the cap \<^verbatim>\<open>stream_message_max_limit_size = 1000\<close>: a
  \<^verbatim>\<open>TxnScan\<close> and a \<^verbatim>\<open>DocumentSearchAll\<close> with the given limit, and engines that return
  one value.
\<close>

definition example_scan_request :: "int \<Rightarrow> TxnScanRequest" where
  "example_scan_request limit =
     \<lparr>scan_limit = limit, scan_stream_limit = 0, scan_start_ts = 100,
      scan_has_coprocessor = False, scan_snapshot_isolation = False\<rparr>"

definition example_search_all_request :: "int \<Rightarrow> DocumentSearchAllRequest" where
  "example_search_all_request limit =
     \<lparr>search_all_region_id = 1, search_all_stream_limit = limit\<rparr>"

definition example_scan_storage :: "TxnScanRequest \<Rightarrow> status \<times> unit scanned_value list \<times> bool" where
  "example_scan_storage request = (OK, [parsed ()], True)"

definition example_search_all_storage :: "DocumentSearchAllRequest \<Rightarrow> status \<times> bool \<times> unit list" where
  "example_search_all_storage request = (OK, True, [()])"

section \<open>Properties of the region watermarks\<close>

lemma RawAppliedMaxTs_Set:
  "RawAppliedMaxTs (SetRawAppliedMaxTs ts r) = max (RawAppliedMaxTs r) ts"
  by (simp add: RawAppliedMaxTs_def SetRawAppliedMaxTs_def)

lemma RawAppliedMaxTs_fold:
  "RawAppliedMaxTs (fold SetRawAppliedMaxTs tss r) = Max (insert (RawAppliedMaxTs r) (set tss))"
proof (induction tss arbitrary: r)
  case Nil
  show ?case by simp
next
  case (Cons ts tss)
  have "Max (insert (max (RawAppliedMaxTs r) ts) (set tss))
      = Max (insert (RawAppliedMaxTs r) (insert ts (set tss)))"
  proof (cases "set tss = {}")
    case True
    then show ?thesis by (simp add: max.commute)
  next
    case False
    then show ?thesis by (simp add: max.assoc max.commute max.left_commute)
  qed
  with Cons show ?case by (simp add: RawAppliedMaxTs_Set)
qed

text \<open>
  Claim C8. In the sequential model, after any sequence \<open>tss\<close> of
  \<^verbatim>\<open>SetRawAppliedMaxTs\<close> calls on a region \<open>r\<close>, \<^verbatim>\<open>RawAppliedMaxTs\<close> is the maximum of
  its initial value and of all arguments passed; a single call never lowers the value,
  and a longer sequence of calls never ends below a shorter one.
\<close>

theorem raw_applied_max_ts_monotone:
  "RawAppliedMaxTs (fold SetRawAppliedMaxTs tss r) = Max (insert (RawAppliedMaxTs r) (set tss))
   \<and> RawAppliedMaxTs r \<le> RawAppliedMaxTs (SetRawAppliedMaxTs ts r)
   \<and> RawAppliedMaxTs (fold SetRawAppliedMaxTs tss r)
       \<le> RawAppliedMaxTs (fold SetRawAppliedMaxTs (tss @ [ts]) r)"
  by (simp add: RawAppliedMaxTs_fold RawAppliedMaxTs_Set)

section \<open>Properties of the flat vector index\<close>


lemma map_of_fold_update:
  "map_of (fold (\<lambda>i m. AList.update (f i) i m) js m0)
     = fold (\<lambda>i m. m(f i \<mapsto> i)) js (map_of m0)"
  by (induction js arbitrary: m0) (simp_all add: update_conv')

lemma dom_fold_upd:
  "dom (fold (\<lambda>i m. m(f i \<mapsto> i)) js (m0 :: int \<rightharpoonup> nat)) = dom m0 \<union> f ` set js"
  by (induction js arbitrary: m0) auto

lemma map_of_construct_rev_map:
  "map_of (construct_rev_map ids) = fold (\<lambda>i m. m(ids ! i \<mapsto> i)) [0..<length ids] Map.empty"
  by (simp add: construct_rev_map_def map_of_fold_update)

lemma dom_construct_rev_map: "dom (map_of (construct_rev_map ids)) = set ids"
proof -
  have "(!) ids ` {0..<length ids} = set ids"
    using nth_image[of "length ids" ids] by simp
  then show ?thesis
    by (simp add: map_of_construct_rev_map dom_fold_upd)
qed

lemma wf_dom: "IndexIDMap2_wf ix \<Longrightarrow> dom (map_of (rev_map ix)) = fst ` set (entries ix)"
  by (simp add: IndexIDMap2_wf_def dom_construct_rev_map)

lemma wf_rev_map_empty: "IndexIDMap2_wf ix \<Longrightarrow> rev_map ix = [] \<Longrightarrow> entries ix = []"
  using wf_dom[of ix] by auto

lemma wf_remove_ids: "IndexIDMap2_wf (faiss_remove_ids sel ix)"
  by (simp add: IndexIDMap2_wf_def faiss_remove_ids_def Let_def)

lemma fold_upd_cong:
  "(\<And>i. i \<in> set js \<Longrightarrow> f i = g i) \<Longrightarrow>
   fold (\<lambda>i m. m(f i \<mapsto> i)) js (m0 :: int \<rightharpoonup> nat) = fold (\<lambda>i m. m(g i \<mapsto> i)) js m0"
  by (induction js arbitrary: m0) auto

lemma wf_add_with_ids:
  assumes "IndexIDMap2_wf ix"
  shows "IndexIDMap2_wf (faiss_add_with_ids xs xids ix)"
proof -
  let ?es = "entries ix @ zip xids xs"
  let ?n = "length (entries ix)"
  let ?ids = "map fst (entries ix)"
  let ?ids' = "map fst ?es"
  have split: "[0..<length ?es] = [0..<?n] @ [?n..<length ?es]"
    by (metis le_add1 length_append upt_add_eq_append zero_le add_0)
  have pre: "fold (\<lambda>i m. m(?ids' ! i \<mapsto> i)) [0..<?n] Map.empty
           = fold (\<lambda>i m. m(?ids ! i \<mapsto> i)) [0..<?n] Map.empty"
    by (rule fold_upd_cong) (simp add: nth_append)
  have post: "fold (\<lambda>i m. m(fst (?es ! i) \<mapsto> i)) [?n..<length ?es] m0
            = fold (\<lambda>i m. m(?ids' ! i \<mapsto> i)) [?n..<length ?es] m0" for m0 :: "int \<rightharpoonup> nat"
    by (rule fold_upd_cong) (simp del: map_append)
  have "map_of (rev_map (faiss_add_with_ids xs xids ix))
      = fold (\<lambda>i m. m(fst (?es ! i) \<mapsto> i)) [?n..<length ?es] (map_of (rev_map ix))"
    by (simp add: faiss_add_with_ids_def Let_def map_of_fold_update)
  also have "\<dots> = fold (\<lambda>i m. m(?ids' ! i \<mapsto> i)) [?n..<length ?es]
                    (fold (\<lambda>i m. m(?ids' ! i \<mapsto> i)) [0..<?n] Map.empty)"
    using assms by (simp only: post pre IndexIDMap2_wf_def map_of_construct_rev_map length_map)
  also have "\<dots> = fold (\<lambda>i m. m(?ids' ! i \<mapsto> i)) [0..<length ?es] Map.empty"
    by (simp only: split fold_append comp_apply)
  finally show ?thesis
    by (simp add: IndexIDMap2_wf_def map_of_construct_rev_map faiss_add_with_ids_def Let_def)
qed


lemma GetExistVectorIds_wf:
  "IndexIDMap2_wf ix \<Longrightarrow>
   GetExistVectorIds ix ids = filter (\<lambda>i. i \<in> fst ` set (entries ix)) ids"
proof -
  assume wf: "IndexIDMap2_wf ix"
  have "(map_of (rev_map ix) i \<noteq> None) = (i \<in> fst ` set (entries ix))" for i
    using wf_dom[OF wf] by (auto simp: dom_def)
  then show ?thesis by (simp add: GetExistVectorIds_def)
qed

lemma remove_existing_entries:
  assumes wf: "IndexIDMap2_wf ix"
  shows "entries (faiss_remove_ids (GetExistVectorIds ix ids) ix)
           = filter (\<lambda>e. fst e \<notin> set ids) (entries ix)"
proof -
  have "filter (\<lambda>e. fst e \<notin> set (filter (\<lambda>i. i \<in> fst ` set (entries ix)) ids)) (entries ix)
      = filter (\<lambda>e. fst e \<notin> set ids) (entries ix)"
    by (rule filter_cong) auto
  then show ?thesis
    by (simp add: faiss_remove_ids_def Let_def GetExistVectorIds_wf[OF wf])
qed

lemma no_existing_entries:
  assumes wf: "IndexIDMap2_wf ix" and none: "GetExistVectorIds ix ids = []"
  shows "filter (\<lambda>e. fst e \<notin> set ids) (entries ix) = entries ix"
proof -
  have "\<forall>i \<in> set ids. i \<notin> fst ` set (entries ix)"
    using none by (simp add: GetExistVectorIds_wf[OF wf] filter_empty_conv)
  then show ?thesis by (auto simp: filter_id_conv)
qed

lemma entries_add_with_ids:
  "entries (faiss_add_with_ids xs xids ix) = entries ix @ zip xids xs"
  by (simp add: faiss_add_with_ids_def Let_def)

lemma AddOrUpsert_ok_iff:
  "ok (fst (AddOrUpsert fl vi b)) \<longleftrightarrow>
     b \<noteq> [] \<and> ok (CheckVectorDimension b (dimension vi)) \<and> distinct (ExtractVectorId b)"
  by (simp add: AddOrUpsert_def Let_def ok_def CheckVectorIdDuplicated_def)

lemma AddOrUpsert_rejected:
  "\<not> ok (fst (AddOrUpsert fl vi b)) \<Longrightarrow> snd (AddOrUpsert fl vi b) = vi"
  by (simp add: AddOrUpsert_def Let_def ok_def split: if_splits)

lemma AddOrUpsert_entries:
  assumes wf: "IndexIDMap2_wf (index_id_map2 vi)"
    and acc: "ok (fst (AddOrUpsert fl vi b))"
  shows "entries (index_id_map2 (snd (AddOrUpsert fl vi b)))
           = filter (\<lambda>e. fst e \<notin> set (ExtractVectorId b)) (entries (index_id_map2 vi))
             @ zip (ExtractVectorId b) (ExtractVectorValue fl b (dimension vi) (normalize vi))"
proof -
  let ?ix = "index_id_map2 vi"
  let ?ids = "ExtractVectorId b"
  from acc have pre: "b \<noteq> []" "ok (CheckVectorDimension b (dimension vi))"
    "ok (CheckVectorIdDuplicated ?ids)"
    unfolding AddOrUpsert_ok_iff by (simp_all add: CheckVectorIdDuplicated_def ok_def)
  show ?thesis
  proof (cases "rev_map ?ix = []")
    case True
    with wf have "entries ?ix = []" by (rule wf_rev_map_empty)
    with True pre show ?thesis
      by (simp add: AddOrUpsert_def Let_def entries_add_with_ids)
  next
    case False
    show ?thesis
    proof (cases "GetExistVectorIds ?ix ?ids = []")
      case True
      with False pre no_existing_entries[OF wf True] show ?thesis
        by (simp add: AddOrUpsert_def Let_def entries_add_with_ids)
    next
      case nonempty: False
      with False pre remove_existing_entries[OF wf, of ?ids] show ?thesis
        by (simp add: AddOrUpsert_def Let_def entries_add_with_ids)
    qed
  qed
qed

lemma AddOrUpsert_wf:
  assumes wf: "IndexIDMap2_wf (index_id_map2 vi)"
  shows "IndexIDMap2_wf (index_id_map2 (snd (AddOrUpsert fl vi b)))"
  using wf by (simp add: AddOrUpsert_def Let_def wf_add_with_ids wf_remove_ids)

lemma Delete_wf:
  assumes wf: "IndexIDMap2_wf (index_id_map2 vi)"
  shows "IndexIDMap2_wf (index_id_map2 (snd (Delete vi ids)))"
  using wf by (simp add: Delete_def Let_def wf_remove_ids)

lemma VectorIndexFlat_new_wf: "IndexIDMap2_wf (index_id_map2 (VectorIndexFlat_new mt dm))"
  by (simp add: VectorIndexFlat_new_def IndexIDMap2_wf_def construct_rev_map_def
      split: prod.splits)

lemma filter_key_distinct:
  "distinct (map fst ps) \<Longrightarrow> (k, x) \<in> set ps \<Longrightarrow> filter (\<lambda>e. fst e = k) ps = [(k, x)]"
proof (induction ps)
  case Nil
  then show ?case by simp
next
  case (Cons p ps)
  show ?case
  proof (cases "fst p = k")
    case True
    with Cons.prems have "p = (k, x)" by (cases p) (auto simp: image_iff)
    moreover from True Cons.prems have "filter (\<lambda>e. fst e = k) ps = []"
      by (auto simp: filter_empty_conv image_iff)
    ultimately show ?thesis by simp
  next
    case False
    with Cons show ?thesis by auto
  qed
qed


lemma fold_upd_lookup_last:
  "n \<le> length ids \<Longrightarrow> i < n \<Longrightarrow> ids ! i = k \<Longrightarrow> (\<forall>j. i < j \<and> j < n \<longrightarrow> ids ! j \<noteq> k) \<Longrightarrow>
   fold (\<lambda>i m. m(ids ! i \<mapsto> i)) [0..<n] (Map.empty :: int \<rightharpoonup> nat) k = Some i"
proof (induction n)
  case 0
  then show ?case by simp
next
  case (Suc n)
  show ?case
  proof (cases "i = n")
    case True
    with Suc.prems show ?thesis by simp
  next
    case False
    with Suc.prems have "i < n" and "ids ! n \<noteq> k" by auto
    moreover from Suc.prems have "\<forall>j. i < j \<and> j < n \<longrightarrow> ids ! j \<noteq> k" by auto
    ultimately have "fold (\<lambda>i m. m(ids ! i \<mapsto> i)) [0..<n] (Map.empty :: int \<rightharpoonup> nat) k = Some i"
      using Suc.prems(1,3) by (intro Suc.IH) simp_all
    with \<open>ids ! n \<noteq> k\<close> show ?thesis by (simp del: fun_upd_apply) simp
  qed
qed

lemma construct_rev_map_lookup_last:
  "i < length ids \<Longrightarrow> ids ! i = k \<Longrightarrow> (\<forall>j. i < j \<and> j < length ids \<longrightarrow> ids ! j \<noteq> k) \<Longrightarrow>
   map_of (construct_rev_map ids) k = Some i"
  by (simp add: map_of_construct_rev_map fold_upd_lookup_last)

lemma length_ExtractVectorValue:
  "length (ExtractVectorValue fl b dm nrm) = length b"
  by (simp add: ExtractVectorValue_def)

lemma AddOrUpsert_lookup:
  assumes wf: "IndexIDMap2_wf (index_id_map2 vi)"
    and acc: "ok (fst (AddOrUpsert fl vi b))"
    and j: "j < length b"
  shows "map_of (rev_map (index_id_map2 (snd (AddOrUpsert fl vi b)))) (vector_id (b ! j))
           = Some (length (filter (\<lambda>e. fst e \<notin> set (ExtractVectorId b)) (entries (index_id_map2 vi))) + j)
       \<and> entries (index_id_map2 (snd (AddOrUpsert fl vi b)))
           ! (length (filter (\<lambda>e. fst e \<notin> set (ExtractVectorId b)) (entries (index_id_map2 vi))) + j)
           = (vector_id (b ! j), ExtractVectorValue fl b (dimension vi) (normalize vi) ! j)"
proof -
  let ?ix' = "index_id_map2 (snd (AddOrUpsert fl vi b))"
  let ?ids = "ExtractVectorId b"
  let ?vals = "ExtractVectorValue fl b (dimension vi) (normalize vi)"
  let ?kept = "filter (\<lambda>e. fst e \<notin> set ?ids) (entries (index_id_map2 vi))"
  let ?p = "length ?kept + j"
  have es: "entries ?ix' = ?kept @ zip ?ids ?vals"
    by (rule AddOrUpsert_entries[OF wf acc])
  have len: "length ?ids = length b" "length ?vals = length b"
    by (simp_all add: ExtractVectorId_def length_ExtractVectorValue)
  have dist: "distinct ?ids" using acc by (simp add: AddOrUpsert_ok_iff)
  have idj: "?ids ! j = vector_id (b ! j)" using j by (simp add: ExtractVectorId_def)
  have ids': "map fst (entries ?ix') = map fst ?kept @ ?ids"
    by (simp add: es len)
  have at: "entries ?ix' ! ?p = (vector_id (b ! j), ?vals ! j)"
    using j len idj by (simp add: es nth_append)
  have wf': "IndexIDMap2_wf ?ix'" by (rule AddOrUpsert_wf[OF wf])
  have "map_of (construct_rev_map (map fst ?kept @ ?ids)) (vector_id (b ! j)) = Some ?p"
  proof (rule construct_rev_map_lookup_last)
    show "?p < length (map fst ?kept @ ?ids)" using j len by simp
    show "(map fst ?kept @ ?ids) ! ?p = vector_id (b ! j)"
      using j len idj by (simp add: nth_append)
    show "\<forall>j'. ?p < j' \<and> j' < length (map fst ?kept @ ?ids)
              \<longrightarrow> (map fst ?kept @ ?ids) ! j' \<noteq> vector_id (b ! j)"
    proof (intro allI impI)
      fix j' assume j': "?p < j' \<and> j' < length (map fst ?kept @ ?ids)"
      then have "j' - length ?kept < length ?ids" "j < j' - length ?kept" by auto
      with dist j len have "?ids ! (j' - length ?kept) \<noteq> ?ids ! j"
        by (simp add: nth_eq_iff_index_eq)
      with j' idj show "(map fst ?kept @ ?ids) ! j' \<noteq> vector_id (b ! j)"
        by (simp add: nth_append)
    qed
  qed
  with wf' ids' at show ?thesis by (simp add: IndexIDMap2_wf_def)
qed

lemma flat_reachable_wf:
  "flat_reachable fl mt dm vi \<Longrightarrow> IndexIDMap2_wf (index_id_map2 vi)"
  by (induction rule: flat_reachable.induct)
     (simp_all add: VectorIndexFlat_new_wf AddOrUpsert_wf Delete_wf)

lemma AddOrUpsert_config:
  "metric_type (snd (AddOrUpsert fl vi b)) = metric_type vi
   \<and> dimension (snd (AddOrUpsert fl vi b)) = dimension vi
   \<and> normalize (snd (AddOrUpsert fl vi b)) = normalize vi
   \<and> index_metric (index_id_map2 (snd (AddOrUpsert fl vi b))) = index_metric (index_id_map2 vi)"
  by (simp add: AddOrUpsert_def Let_def faiss_add_with_ids_def faiss_remove_ids_def)

lemma Delete_config:
  "metric_type (snd (Delete vi ids)) = metric_type vi
   \<and> dimension (snd (Delete vi ids)) = dimension vi
   \<and> normalize (snd (Delete vi ids)) = normalize vi
   \<and> index_metric (index_id_map2 (snd (Delete vi ids))) = index_metric (index_id_map2 vi)"
  by (simp add: Delete_def Let_def faiss_remove_ids_def)

lemma flat_reachable_config:
  "flat_reachable fl mt dm vi \<Longrightarrow>
     metric_type vi = mt \<and> dimension vi = dm \<and> normalize vi = (mt = METRIC_TYPE_COSINE)
     \<and> index_metric (index_id_map2 vi)
         = (if mt = METRIC_TYPE_INNER_PRODUCT \<or> mt = METRIC_TYPE_COSINE
            then METRIC_INNER_PRODUCT else METRIC_L2)"
proof (induction rule: flat_reachable.induct)
  case constructed
  show ?case by (cases mt) (simp_all add: VectorIndexFlat_new_def)
next
  case (added vi vector_with_ids)
  then show ?case by (simp add: AddOrUpsert_config)
next
  case (deleted vi delete_ids)
  then show ?case by (simp add: Delete_config)
qed

text \<open>
  Claim C1. Every call that \<^verbatim>\<open>RangeSearch\<close> makes to the underlying index is a range
  search whose radius is \<^verbatim>\<open>1.0F - radius\<close> (computed with the float subtraction of
  the source) when the metric type of the index is inner-product or cosine, and the
  caller's radius otherwise. A call that passes the argument checks (a non-empty query
  batch whose vectors have the dimension of the index) makes exactly one such call: with
  radius \<^verbatim>\<open>1.0F - radius\<close> for inner-product and cosine, with the caller's radius for L2.
\<close>

theorem RangeSearch_radius:
  "set (snd (snd (RangeSearch fl co vi vector_with_ids radius filters results)))
     \<subseteq> {range_search_call (length vector_with_ids)
          (ExtractVectorValue fl vector_with_ids (dimension vi) (normalize vi))
          (if metric_type vi = METRIC_TYPE_INNER_PRODUCT \<or> metric_type vi = METRIC_TYPE_COSINE
           then f_sub fl (f_one fl) radius else radius)
          (if filters \<noteq> [] then Some filters else None)}
   \<and> (vector_with_ids \<noteq> [] \<and> ok (CheckVectorDimension vector_with_ids (dimension vi)) \<longrightarrow>
        (metric_type vi = METRIC_TYPE_INNER_PRODUCT \<or> metric_type vi = METRIC_TYPE_COSINE \<longrightarrow>
           snd (snd (RangeSearch fl co vi vector_with_ids radius filters results))
             = [range_search_call (length vector_with_ids)
                  (ExtractVectorValue fl vector_with_ids (dimension vi) (normalize vi))
                  (f_sub fl (f_one fl) radius)
                  (if filters \<noteq> [] then Some filters else None)])
        \<and> (metric_type vi = METRIC_TYPE_L2 \<longrightarrow>
           snd (snd (RangeSearch fl co vi vector_with_ids radius filters results))
             = [range_search_call (length vector_with_ids)
                  (ExtractVectorValue fl vector_with_ids (dimension vi) (normalize vi))
                  radius
                  (if filters \<noteq> [] then Some filters else None)]))"
  by (auto simp: RangeSearch_def Let_def split: sum.splits)

theorem RangeSearch_radius_witness:
  "[\<lparr>vector_id = 7, float_values = [0, 2 :: real]\<rparr>] \<noteq> []
   \<and> ok (CheckVectorDimension [\<lparr>vector_id = 7, float_values = [0, 2 :: real]\<rparr>]
           (dimension (VectorIndexFlat_new METRIC_TYPE_COSINE 2 :: real VectorIndexFlat)))
   \<and> metric_type (VectorIndexFlat_new METRIC_TYPE_COSINE 2 :: real VectorIndexFlat)
       = METRIC_TYPE_COSINE
   \<and> snd (snd (RangeSearch real_float_ops silent_collaborators
                 (VectorIndexFlat_new METRIC_TYPE_COSINE 2)
                 [\<lparr>vector_id = 7, float_values = [0, 2]\<rparr>] (1 / 4) [] []))
       = [range_search_call 1 [[0, 1]] (3 / 4) None]
   \<and> metric_type (VectorIndexFlat_new METRIC_TYPE_L2 2 :: real VectorIndexFlat) = METRIC_TYPE_L2
   \<and> snd (snd (RangeSearch real_float_ops silent_collaborators
                 (VectorIndexFlat_new METRIC_TYPE_L2 2)
                 [\<lparr>vector_id = 7, float_values = [0, 2]\<rparr>] (1 / 4) [] []))
       = [range_search_call 1 [[0, 2]] (1 / 4) None]"
proof -
  let ?q = "[\<lparr>vector_id = 7, float_values = [0, 2 :: real]\<rparr>]"
  let ?c = "VectorIndexFlat_new METRIC_TYPE_COSINE 2 :: real VectorIndexFlat"
  let ?l = "VectorIndexFlat_new METRIC_TYPE_L2 2 :: real VectorIndexFlat"
  have ne: "?q \<noteq> []" by simp
  have dc: "ok (CheckVectorDimension ?q (dimension ?c))"
    by (simp add: ok_def CheckVectorDimension_def VectorIndexFlat_new_def)
  have dl: "ok (CheckVectorDimension ?q (dimension ?l))"
    by (simp add: ok_def CheckVectorDimension_def VectorIndexFlat_new_def)
  have cfg: "metric_type ?c = METRIC_TYPE_COSINE" "metric_type ?l = METRIC_TYPE_L2"
    "dimension ?c = 2" "dimension ?l = 2" "normalize ?c" "\<not> normalize ?l"
    by (simp_all add: VectorIndexFlat_new_def)
  have vals: "ExtractVectorValue real_float_ops ?q 2 True = [[0, 1]]"
    "ExtractVectorValue real_float_ops ?q 2 False = [[0, 2]]"
    "f_sub real_float_ops (f_one real_float_ops) (1 / 4) = 3 / 4"
    by (simp_all add: ExtractVectorValue_def real_float_ops_def)
  from RangeSearch_radius[of real_float_ops silent_collaborators ?c ?q "1 / 4" "[]" "[]"]
       RangeSearch_radius[of real_float_ops silent_collaborators ?l ?q "1 / 4" "[]" "[]"]
       ne dc dl
  show ?thesis by (simp add: cfg vals)
qed

lemma zip_ids_values:
  "zip (ExtractVectorId b) (ExtractVectorValue fl b dm nrm)
     = map (\<lambda>v. (vector_id v, if nrm then normalize_vector fl (float_values v) else float_values v)) b"
  by (simp add: ExtractVectorId_def ExtractVectorValue_def zip_map_map zip_same_conv_map)

lemma AddOrUpsert_single_entry:
  assumes wf: "IndexIDMap2_wf (index_id_map2 vi)"
    and acc: "ok (fst (AddOrUpsert fl vi b))"
    and v: "v \<in> set b"
  shows "filter (\<lambda>e. fst e = vector_id v) (entries (index_id_map2 (snd (AddOrUpsert fl vi b))))
           = [(vector_id v,
               if normalize vi then normalize_vector fl (float_values v) else float_values v)]"
proof -
  let ?g = "\<lambda>v. (vector_id v,
                if normalize vi then normalize_vector fl (float_values v) else float_values v)"
  let ?new = "zip (ExtractVectorId b) (ExtractVectorValue fl b (dimension vi) (normalize vi))"
  have new: "?new = map ?g b" by (rule zip_ids_values)
  have dist: "distinct (map fst ?new)"
    using acc unfolding AddOrUpsert_ok_iff new by (simp add: ExtractVectorId_def comp_def)
  have mem: "(vector_id v, snd (?g v)) \<in> set ?new"
    unfolding new using v by (auto intro!: image_eqI[of _ _ v])
  have old: "filter (\<lambda>e. fst e = vector_id v)
               (filter (\<lambda>e. fst e \<notin> set (ExtractVectorId b)) (entries (index_id_map2 vi))) = []"
    using v by (auto simp: filter_empty_conv ExtractVectorId_def)
  have "filter (\<lambda>e. fst e = vector_id v) ?new = [(vector_id v, snd (?g v))]"
    by (rule filter_key_distinct[OF dist mem])
  then show ?thesis
    by (simp only: AddOrUpsert_entries[OF wf acc] filter_append old append_Nil snd_conv)
qed

lemma AddOrUpsert_rev_map_entry:
  assumes wf: "IndexIDMap2_wf (index_id_map2 vi)"
    and acc: "ok (fst (AddOrUpsert fl vi b))"
    and v: "v \<in> set b"
  shows "\<exists>p. map_of (rev_map (index_id_map2 (snd (AddOrUpsert fl vi b)))) (vector_id v) = Some p
           \<and> entries (index_id_map2 (snd (AddOrUpsert fl vi b))) ! p
               = (vector_id v,
                  if normalize vi then normalize_vector fl (float_values v) else float_values v)"
proof -
  from v obtain j where j: "j < length b" "b ! j = v" by (auto simp: in_set_conv_nth)
  have "ExtractVectorValue fl b (dimension vi) (normalize vi) ! j
          = (if normalize vi then normalize_vector fl (float_values v) else float_values v)"
    using j by (simp add: ExtractVectorValue_def)
  with AddOrUpsert_lookup[OF wf acc j(1)] j(2) show ?thesis by auto
qed

text \<open>
  Claim C2. \<^verbatim>\<open>AddOrUpsert\<close> accepts a batch exactly when it is not empty, every vector
  has the dimension of the index and the duplicate check passes; a rejected batch leaves
  the index as it was. When the batch is accepted and the id map of the index satisfies
  its invariant (as it does in every index reached from the constructor), then, in the
  one step that the source runs under the write guard, the entries whose id is in the
  batch are removed and the vectors of the batch are appended under their ids. Afterwards
  every id of the batch has exactly one entry, holding the vector just supplied
  (normalised when the index normalises), the reverse map sends the id to the position of
  that entry, and the invariant holds again.
\<close>

theorem AddOrUpsert_replaces_existing_ids:
  "ok (fst (AddOrUpsert fl vi vector_with_ids))
     = (vector_with_ids \<noteq> [] \<and> ok (CheckVectorDimension vector_with_ids (dimension vi))
        \<and> ok (CheckVectorIdDuplicated (ExtractVectorId vector_with_ids)))
   \<and> (\<not> ok (fst (AddOrUpsert fl vi vector_with_ids)) \<longrightarrow>
        snd (AddOrUpsert fl vi vector_with_ids) = vi)
   \<and> (IndexIDMap2_wf (index_id_map2 vi) \<and> ok (fst (AddOrUpsert fl vi vector_with_ids)) \<longrightarrow>
        entries (index_id_map2 (snd (AddOrUpsert fl vi vector_with_ids)))
          = filter (\<lambda>e. fst e \<notin> set (ExtractVectorId vector_with_ids))
              (entries (index_id_map2 vi))
            @ zip (ExtractVectorId vector_with_ids)
                (ExtractVectorValue fl vector_with_ids (dimension vi) (normalize vi))
        \<and> (\<forall>v \<in> set vector_with_ids.
             filter (\<lambda>e. fst e = vector_id v)
               (entries (index_id_map2 (snd (AddOrUpsert fl vi vector_with_ids))))
               = [(vector_id v,
                   if normalize vi then normalize_vector fl (float_values v) else float_values v)]
             \<and> (\<exists>p. map_of (rev_map (index_id_map2 (snd (AddOrUpsert fl vi vector_with_ids))))
                        (vector_id v) = Some p
                    \<and> entries (index_id_map2 (snd (AddOrUpsert fl vi vector_with_ids))) ! p
                        = (vector_id v,
                           if normalize vi then normalize_vector fl (float_values v)
                           else float_values v)))
        \<and> IndexIDMap2_wf (index_id_map2 (snd (AddOrUpsert fl vi vector_with_ids))))"
proof (intro conjI impI)
  show "ok (fst (AddOrUpsert fl vi vector_with_ids))
     = (vector_with_ids \<noteq> [] \<and> ok (CheckVectorDimension vector_with_ids (dimension vi))
        \<and> ok (CheckVectorIdDuplicated (ExtractVectorId vector_with_ids)))"
    unfolding AddOrUpsert_ok_iff by (simp add: CheckVectorIdDuplicated_def ok_def)
next
  assume "\<not> ok (fst (AddOrUpsert fl vi vector_with_ids))"
  then show "snd (AddOrUpsert fl vi vector_with_ids) = vi" by (rule AddOrUpsert_rejected)
next
  assume a: "IndexIDMap2_wf (index_id_map2 vi) \<and> ok (fst (AddOrUpsert fl vi vector_with_ids))"
  then have wf: "IndexIDMap2_wf (index_id_map2 vi)"
    and acc: "ok (fst (AddOrUpsert fl vi vector_with_ids))" by simp_all
  show "entries (index_id_map2 (snd (AddOrUpsert fl vi vector_with_ids)))
          = filter (\<lambda>e. fst e \<notin> set (ExtractVectorId vector_with_ids))
              (entries (index_id_map2 vi))
            @ zip (ExtractVectorId vector_with_ids)
                (ExtractVectorValue fl vector_with_ids (dimension vi) (normalize vi))"
    by (rule AddOrUpsert_entries[OF wf acc])
  show "\<forall>v \<in> set vector_with_ids.
             filter (\<lambda>e. fst e = vector_id v)
               (entries (index_id_map2 (snd (AddOrUpsert fl vi vector_with_ids))))
               = [(vector_id v,
                   if normalize vi then normalize_vector fl (float_values v) else float_values v)]
             \<and> (\<exists>p. map_of (rev_map (index_id_map2 (snd (AddOrUpsert fl vi vector_with_ids))))
                        (vector_id v) = Some p
                    \<and> entries (index_id_map2 (snd (AddOrUpsert fl vi vector_with_ids))) ! p
                        = (vector_id v,
                           if normalize vi then normalize_vector fl (float_values v)
                           else float_values v))"
    using AddOrUpsert_single_entry[OF wf acc] AddOrUpsert_rev_map_entry[OF wf acc] by blast
  show "IndexIDMap2_wf (index_id_map2 (snd (AddOrUpsert fl vi vector_with_ids)))"
    by (rule AddOrUpsert_wf[OF wf])
qed

lemma example_index_wf: "IndexIDMap2_wf (index_id_map2 example_index)"
  by (simp add: example_index_def IndexIDMap2_wf_def construct_rev_map_def upt_rec)

theorem AddOrUpsert_replaces_existing_ids_witness:
  "IndexIDMap2_wf (index_id_map2 example_index)
   \<and> ok (fst (AddOrUpsert real_float_ops example_index [\<lparr>vector_id = 1, float_values = [5, 5]\<rparr>]))
   \<and> entries (index_id_map2 (snd (AddOrUpsert real_float_ops example_index
                                      [\<lparr>vector_id = 1, float_values = [5, 5]\<rparr>])))
       = [(2, [0, 1]), (1, [5, 5])]
   \<and> filter (\<lambda>e. fst e = 1)
        (entries (index_id_map2 (snd (AddOrUpsert real_float_ops example_index
                                        [\<lparr>vector_id = 1, float_values = [5, 5]\<rparr>]))))
       = [(1, [5, 5])]"
proof -
  let ?b = "[\<lparr>vector_id = 1, float_values = [5, 5 :: real]\<rparr>]"
  have acc: "ok (fst (AddOrUpsert real_float_ops example_index ?b))"
    unfolding AddOrUpsert_ok_iff
    by (simp add: ok_def CheckVectorDimension_def ExtractVectorId_def example_index_def)
  have vals: "ExtractVectorId ?b = [1]"
    "ExtractVectorValue real_float_ops ?b (dimension example_index) (normalize example_index)
       = [[5, 5]]"
    "entries (index_id_map2 example_index) = [(1, [1, 0]), (2, [0, 1])]"
    by (simp_all add: ExtractVectorId_def ExtractVectorValue_def example_index_def)
  from AddOrUpsert_replaces_existing_ids[of real_float_ops example_index ?b]
       example_index_wf acc
  show ?thesis by (simp add: vals)
qed

text \<open>
  Claim C9. The constructor called with the cosine metric builds an inner-product raw
  index and sets the normalisation flag, and every index reached from it by
  \<^verbatim>\<open>AddOrUpsert\<close> and \<^verbatim>\<open>Delete\<close> calls keeps both. On such an index an accepted
  \<^verbatim>\<open>AddOrUpsert\<close> stores the normalised copy of every vector of the batch, and a
  \<^verbatim>\<open>Search\<close> or \<^verbatim>\<open>RangeSearch\<close> that reaches the underlying index hands it the
  normalised copies of the query vectors.
\<close>

theorem cosine_index_normalizes:
  assumes "flat_reachable (fl :: 'f float_ops) METRIC_TYPE_COSINE dm vi"
  shows "index_metric (index_id_map2 (VectorIndexFlat_new METRIC_TYPE_COSINE dm :: 'f VectorIndexFlat))
           = METRIC_INNER_PRODUCT
       \<and> normalize (VectorIndexFlat_new METRIC_TYPE_COSINE dm :: 'f VectorIndexFlat)
       \<and> index_metric (index_id_map2 vi) = METRIC_INNER_PRODUCT
       \<and> normalize vi
       \<and> (ok (fst (AddOrUpsert fl vi vector_with_ids)) \<longrightarrow>
            entries (index_id_map2 (snd (AddOrUpsert fl vi vector_with_ids)))
              = filter (\<lambda>e. fst e \<notin> set (ExtractVectorId vector_with_ids))
                  (entries (index_id_map2 vi))
                @ map (\<lambda>v. (vector_id v, normalize_vector fl (float_values v))) vector_with_ids)
       \<and> (query \<noteq> [] \<and> 0 < topk \<and> ok (CheckVectorDimension query (dimension vi)) \<longrightarrow>
            snd (snd (Search fl co vi query topk filters results))
              = [search_call (length query)
                   (map (\<lambda>v. normalize_vector fl (float_values v)) query) topk
                   (if filters \<noteq> [] then Some filters else None)])
       \<and> (query \<noteq> [] \<and> ok (CheckVectorDimension query (dimension vi)) \<longrightarrow>
            snd (snd (RangeSearch fl co vi query radius filters results))
              = [range_search_call (length query)
                   (map (\<lambda>v. normalize_vector fl (float_values v)) query)
                   (f_sub fl (f_one fl) radius)
                   (if filters \<noteq> [] then Some filters else None)])"
proof -
  have new: "index_metric (index_id_map2 (VectorIndexFlat_new METRIC_TYPE_COSINE dm :: 'f VectorIndexFlat))
               = METRIC_INNER_PRODUCT
             \<and> normalize (VectorIndexFlat_new METRIC_TYPE_COSINE dm :: 'f VectorIndexFlat)"
    by (simp add: VectorIndexFlat_new_def)
  have cfg: "metric_type vi = METRIC_TYPE_COSINE" "normalize vi"
    "index_metric (index_id_map2 vi) = METRIC_INNER_PRODUCT"
    using flat_reachable_config[OF assms] by simp_all
  have wf: "IndexIDMap2_wf (index_id_map2 vi)" by (rule flat_reachable_wf[OF assms])
  have add: "ok (fst (AddOrUpsert fl vi vector_with_ids)) \<longrightarrow>
            entries (index_id_map2 (snd (AddOrUpsert fl vi vector_with_ids)))
              = filter (\<lambda>e. fst e \<notin> set (ExtractVectorId vector_with_ids))
                  (entries (index_id_map2 vi))
                @ map (\<lambda>v. (vector_id v, normalize_vector fl (float_values v))) vector_with_ids"
    using cfg(2) by (simp add: AddOrUpsert_entries[OF wf] zip_ids_values)
  have search: "query \<noteq> [] \<and> 0 < topk \<and> ok (CheckVectorDimension query (dimension vi)) \<longrightarrow>
            snd (snd (Search fl co vi query topk filters results))
              = [search_call (length query)
                   (map (\<lambda>v. normalize_vector fl (float_values v)) query) topk
                   (if filters \<noteq> [] then Some filters else None)]"
    using cfg(2) by (simp add: Search_def Let_def ExtractVectorValue_def)
  have range: "query \<noteq> [] \<and> ok (CheckVectorDimension query (dimension vi)) \<longrightarrow>
            snd (snd (RangeSearch fl co vi query radius filters results))
              = [range_search_call (length query)
                   (map (\<lambda>v. normalize_vector fl (float_values v)) query)
                   (f_sub fl (f_one fl) radius)
                   (if filters \<noteq> [] then Some filters else None)]"
    using cfg(1,2) by (simp add: RangeSearch_def Let_def ExtractVectorValue_def split: sum.splits)
  from new cfg add search range show ?thesis by blast
qed

theorem cosine_index_normalizes_witness:
  "flat_reachable real_float_ops METRIC_TYPE_COSINE 2 (VectorIndexFlat_new METRIC_TYPE_COSINE 2)
   \<and> normalize (VectorIndexFlat_new METRIC_TYPE_COSINE 2 :: real VectorIndexFlat)
   \<and> ok (fst (AddOrUpsert real_float_ops (VectorIndexFlat_new METRIC_TYPE_COSINE 2)
                [\<lparr>vector_id = 7, float_values = [0, 2]\<rparr>]))
   \<and> entries (index_id_map2 (snd (AddOrUpsert real_float_ops (VectorIndexFlat_new METRIC_TYPE_COSINE 2)
                                      [\<lparr>vector_id = 7, float_values = [0, 2]\<rparr>])))
       = [(7, [0, 1])]
   \<and> [\<lparr>vector_id = 9, float_values = [2, 0 :: real]\<rparr>] \<noteq> [] \<and> (0 :: nat) < 3
   \<and> ok (CheckVectorDimension [\<lparr>vector_id = 9, float_values = [2, 0 :: real]\<rparr>]
           (dimension (VectorIndexFlat_new METRIC_TYPE_COSINE 2 :: real VectorIndexFlat)))
   \<and> snd (snd (Search real_float_ops silent_collaborators (VectorIndexFlat_new METRIC_TYPE_COSINE 2)
                 [\<lparr>vector_id = 9, float_values = [2, 0]\<rparr>] 3 [] []))
       = [search_call 1 [[1, 0]] 3 None]
   \<and> snd (snd (RangeSearch real_float_ops silent_collaborators (VectorIndexFlat_new METRIC_TYPE_COSINE 2)
                 [\<lparr>vector_id = 9, float_values = [2, 0]\<rparr>] (1 / 4) [] []))
       = [range_search_call 1 [[1, 0]] (3 / 4) None]"
proof -
  let ?vi = "VectorIndexFlat_new METRIC_TYPE_COSINE 2 :: real VectorIndexFlat"
  let ?b = "[\<lparr>vector_id = 7, float_values = [0, 2 :: real]\<rparr>]"
  let ?q = "[\<lparr>vector_id = 9, float_values = [2, 0 :: real]\<rparr>]"
  have r: "flat_reachable real_float_ops METRIC_TYPE_COSINE 2 ?vi"
    by (rule flat_reachable.constructed)
  have acc: "ok (fst (AddOrUpsert real_float_ops ?vi ?b))"
    unfolding AddOrUpsert_ok_iff
    by (simp add: ok_def CheckVectorDimension_def ExtractVectorId_def VectorIndexFlat_new_def)
  have d: "ok (CheckVectorDimension ?q (dimension ?vi))"
    by (simp add: ok_def CheckVectorDimension_def VectorIndexFlat_new_def)
  have vals: "normalize_vector real_float_ops [0, 2] = [0, 1]"
    "normalize_vector real_float_ops [2, 0] = [1, 0]"
    by (simp_all add: real_float_ops_def)
  have e: "entries (index_id_map2 ?vi) = []" by (simp add: VectorIndexFlat_new_def)
  have sub: "f_sub real_float_ops (f_one real_float_ops) (1 / 4) = 3 / 4"
    by (simp add: real_float_ops_def)
  from cosine_index_normalizes[OF r, of ?b ?q 3 silent_collaborators "[]" "[]" "1 / 4"] r acc d
  show ?thesis
    by (simp add: vals e sub)
qed

section \<open>Properties of the RPC entry points\<close>

lemmas handler_blocks =
  reply_region_not_found_def reply_background_full_def return_validation_error_def
  run_inline_def run_in_queue_def Let_def

lemmas handler_methods =
  DocumentBatchQuery_def DocumentSearch_def DocumentSearchAll_def DocumentAdd_def
  DocumentDelete_def DocumentGetBorderId_def DocumentScanQuery_def
  DocumentGetRegionMetrics_def DocumentCount_def TxnGet_def TxnScan_def
  TxnPessimisticLock_def TxnPessimisticRollback_def TxnPrewrite_def TxnCommit_def
  TxnCheckTxnStatus_def TxnResolveLock_def TxnBatchGet_def TxnBatchRollback_def
  TxnScanLock_def TxnHeartBeat_def TxnGc_def TxnDeleteRange_def BackupData_def
  RestoreData_def TxnDump_def Hello_def GetMemoryInfo_def

lemma queue_full_reply_blocks:
  "queue_full_reply env reply_region_not_found"
  "queue_full_reply env reply_background_full"
  "queue_full_reply env (return_validation_error st)"
  "queue_full_reply env run_inline"
  "queue_full_reply env (run_in_queue env ws d)"
  by (simp_all add: queue_full_reply_def handler_blocks)

lemma queue_full_reply_methods:
  "method \<in> set document_service_methods \<Longrightarrow> queue_full_reply env (method env fs)"
  unfolding document_service_methods_def
  by (auto simp: handler_methods queue_full_reply_blocks)

text \<open>
  Claim C6. For every method of the document service: when the method hands its task to
  a worker set and the worker set refuses it (the queue is full), the method sets the
  response error to \<^verbatim>\<open>EREQUEST_FULL\<close> and runs the done closure exactly once before it
  returns; the task is neither queued nor run inline.
\<close>

theorem enqueue_failure_replies_request_full:
  assumes "method \<in> set document_service_methods"
    and "execute_call (method env fs) = Some (ws, d)"
    and "\<not> Execute env ws d"
  shows "handler_error (method env fs) = Some EREQUEST_FULL
       \<and> handler_done_run (method env fs) = 1
       \<and> \<not> task_queued (method env fs)
       \<and> \<not> ran_inline (method env fs)"
  using queue_full_reply_methods[OF assms(1), of env fs] assms(2,3)
  by (simp add: queue_full_reply_def)

lemma execute_call_reached:
  assumes "method \<in> set document_service_methods"
    and "\<not> GetRegion_is_nullptr env"
    and "\<not> IsBackgroundPendingTaskCountExceed env fs"
    and "ok (handler_validation env)"
    and "FLAGS_enable_async_document_search fs"
    and "FLAGS_enable_async_document_count fs"
    and "FLAGS_enable_async_document_operation fs"
  shows "execute_call (method env fs) \<noteq> None"
  using assms unfolding document_service_methods_def
  by (auto simp: handler_methods run_in_queue_def Let_def)

text \<open>
  Claim C7. When the number of pending background tasks is greater than
  \<^verbatim>\<open>document_max_background_task_count\<close>, each of \<^verbatim>\<open>DocumentAdd\<close>,
  \<^verbatim>\<open>TxnPrewrite\<close> and \<^verbatim>\<open>TxnCommit\<close> returns without an \<^verbatim>\<open>Execute\<close> call and
  without running the body, and runs the done closure once: the request is answered
  before it is enqueued. The answer is \<^verbatim>\<open>EREQUEST_FULL\<close> whenever the region of the
  request is found (a request for an unknown region is answered by the service closure
  before the background test is reached).
\<close>

theorem background_backpressure:
  assumes "GetBackgroundPendingTaskCount env > FLAGS_document_max_background_task_count fs"
    and "method = DocumentAdd \<or> method = TxnPrewrite \<or> method = TxnCommit"
  shows "execute_call (method env fs) = None
       \<and> \<not> task_queued (method env fs)
       \<and> \<not> ran_inline (method env fs)
       \<and> handler_done_run (method env fs) = 1
       \<and> (\<not> GetRegion_is_nullptr env \<longrightarrow> handler_error (method env fs) = Some EREQUEST_FULL)"
proof -
  have bg: "IsBackgroundPendingTaskCountExceed env fs"
    using assms(1) by (simp add: IsBackgroundPendingTaskCountExceed_def)
  have "method env fs
          = (if GetRegion_is_nullptr env then reply_region_not_found else reply_background_full)"
    using assms(2) bg by (auto simp: DocumentAdd_def TxnPrewrite_def TxnCommit_def)
  then show ?thesis
    by (simp add: reply_background_full_def reply_region_not_found_def)
qed

theorem enqueue_failure_replies_request_full_witness:
  "DocumentAdd \<in> set document_service_methods
   \<and> execute_call (DocumentAdd (example_handler_env 0 False) (default_flags 1024 1000 16))
       = Some (write_worker_set, ExecuteRR)
   \<and> \<not> Execute (example_handler_env 0 False) write_worker_set ExecuteRR
   \<and> handler_error (DocumentAdd (example_handler_env 0 False) (default_flags 1024 1000 16))
       = Some EREQUEST_FULL
   \<and> handler_done_run (DocumentAdd (example_handler_env 0 False) (default_flags 1024 1000 16)) = 1
   \<and> \<not> task_queued (DocumentAdd (example_handler_env 0 False) (default_flags 1024 1000 16))"
proof -
  let ?env = "example_handler_env 0 False"
  let ?fs = "default_flags 1024 1000 16"
  have m: "DocumentAdd \<in> set document_service_methods"
    by (simp add: document_service_methods_def)
  have c: "execute_call (DocumentAdd ?env ?fs) = Some (write_worker_set, ExecuteRR)"
    by (simp add: DocumentAdd_def example_handler_env_def default_flags_def
        IsBackgroundPendingTaskCountExceed_def run_in_queue_def)
  have e: "\<not> Execute ?env write_worker_set ExecuteRR"
    by (simp add: example_handler_env_def)
  from enqueue_failure_replies_request_full[OF m c e] m c e show ?thesis by simp
qed

theorem background_backpressure_witness:
  "\<not> GetRegion_is_nullptr (example_handler_env 17 True)
   \<and> GetBackgroundPendingTaskCount (example_handler_env 17 True)
       > FLAGS_document_max_background_task_count (default_flags 1024 1000 16)
   \<and> handler_error (TxnPrewrite (example_handler_env 17 True) (default_flags 1024 1000 16))
       = Some EREQUEST_FULL
   \<and> handler_done_run (TxnPrewrite (example_handler_env 17 True) (default_flags 1024 1000 16)) = 1
   \<and> execute_call (TxnPrewrite (example_handler_env 17 True) (default_flags 1024 1000 16)) = None
   \<and> \<not> task_queued (TxnPrewrite (example_handler_env 17 True) (default_flags 1024 1000 16))"
proof -
  let ?env = "example_handler_env 17 True"
  let ?fs = "default_flags 1024 1000 16"
  have r: "\<not> GetRegion_is_nullptr ?env" by (simp add: example_handler_env_def)
  have p: "GetBackgroundPendingTaskCount ?env > FLAGS_document_max_background_task_count ?fs"
    by (simp add: example_handler_env_def default_flags_def)
  have m: "TxnPrewrite = DocumentAdd \<or> TxnPrewrite = TxnPrewrite \<or> TxnPrewrite = TxnCommit"
    by simp
  from background_backpressure[OF p m] r p show ?thesis by simp
qed

section \<open>Properties of validation and of the request bodies\<close>

lemma not_ok_simps [simp]:
  "\<not> ok EILLEGAL_PARAMTETERS" "\<not> ok EDOCUMENT_EMPTY" "\<not> ok EDOCUMENT_EXCEED_MAX_BATCH_COUNT"
  "\<not> ok EDOCUMENT_EXCEED_MAX_REQUEST_SIZE" "\<not> ok EDOCUMENT_INDEX_BUILD_ERROR"
  "\<not> ok EDOCUMENT_INDEX_NOT_READY" "\<not> ok EREGION_NOT_FOUND" "\<not> ok EKEY_EMPTY"
  "\<not> ok EINTERNAL" "\<not> ok EREQUEST_FULL" "\<not> ok ETXN_MEMORY_LOCK_CONFLICT" "ok OK"
  by (simp_all add: ok_def)

lemma illegal_ids:
  "document_id0 \<le> 0 \<or> document_id0 = INT64_MAX \<Longrightarrow> \<not> IsLegalDocumentId document_id0"
  by (auto simp: IsLegalDocumentId_def)

lemma ValidateDocumentAddRequest_ok_legal:
  "ok (ValidateDocumentAddRequest fs env request) \<Longrightarrow>
   list_all (\<lambda>document. IsLegalDocumentId (document_id document)) (add_documents request)"
  by (simp add: ValidateDocumentAddRequest_def list_ex_iff list_all_iff split: if_splits)

lemma ValidateDocumentAddRequest_at_id_check:
  assumes "ok (ValidateRegionEpoch env)" "add_region_id request \<noteq> 0"
    "int (length (add_documents request)) \<le> FLAGS_document_max_batch_count fs"
    "int (add_ByteSizeLong request) \<le> to_uint64 (FLAGS_document_max_request_size fs)"
    "0 \<le> add_ttl request" "ok (ValidateLeader env)" "IsReady env"
    "document \<in> set (add_documents request)" "\<not> IsLegalDocumentId (document_id document)"
  shows "ValidateDocumentAddRequest fs env request = EILLEGAL_PARAMTETERS"
proof -
  from assms(8) have "add_documents request \<noteq> []" by auto
  moreover from assms(8,9)
  have "list_ex (\<lambda>document. \<not> IsLegalDocumentId (document_id document)) (add_documents request)"
    by (auto simp: list_ex_iff)
  ultimately show ?thesis using assms(1-7)
    by (simp add: ValidateDocumentAddRequest_def)
qed

lemma DoDocumentAdd_rejected:
  "\<not> ok (ValidateDocumentAddRequest fs env request) \<Longrightarrow>
   DoDocumentAdd fs env storage request is_sync
     = \<lparr>response_error = Some (ValidateDocumentAddRequest fs env request), response_results = [],
        response_stream_has_more = None, done_run = 1, engine_call = None\<rparr>"
  by (simp add: DoDocumentAdd_def Let_def)

lemma prewrite_mutation_loop_codes:
  "prewrite_mutation_loop env ms = OK \<or> prewrite_mutation_loop env ms = EILLEGAL_PARAMTETERS
   \<or> prewrite_mutation_loop env ms = EDOCUMENT_EMPTY"
  by (induction ms) (auto simp: Let_def)

lemma prewrite_mutation_loop_ok_legal:
  "ok (prewrite_mutation_loop env ms) \<Longrightarrow>
   list_all (\<lambda>mutation. IsLegalDocumentId (UnPackageDocumentId env (mutation_key mutation))) ms"
  by (induction ms) (auto simp: Let_def split: if_splits)

lemma ValidateDocumentTxnPrewriteRequest_ok_loop:
  "ok (ValidateDocumentTxnPrewriteRequest fs env request) \<Longrightarrow>
   ok (prewrite_mutation_loop env (prewrite_mutations request))"
  by (simp add: ValidateDocumentTxnPrewriteRequest_def split: if_splits)

lemma ValidateDocumentTxnPrewriteRequest_at_loop:
  assumes "ok (ValidateRegionEpoch env)"
    "int (length (prewrite_mutations request)) \<le> FLAGS_max_prewrite_count fs"
    "prewrite_primary_lock request \<noteq> []" "prewrite_start_ts request \<noteq> 0"
    "prewrite_lock_ttl request \<noteq> 0" "prewrite_txn_size request \<noteq> 0"
    "list_all (\<lambda>mutation. mutation_key mutation \<noteq> []) (prewrite_mutations request)"
    "ok (ValidateRegion env (map mutation_key (prewrite_mutations request)))"
    "int (length (prewrite_mutations request)) \<le> FLAGS_document_max_batch_count fs"
    "int (prewrite_ByteSizeLong request) \<le> to_uint64 (FLAGS_document_max_request_size fs)"
    "ok (ValidateLeader env)" "ok (ValidateClusterReadOnly env)" "IsReady env"
    "mutation \<in> set (prewrite_mutations request)"
    "\<not> IsLegalDocumentId (UnPackageDocumentId env (mutation_key mutation))"
  shows "ValidateDocumentTxnPrewriteRequest fs env request
           = prewrite_mutation_loop env (prewrite_mutations request)
       \<and> (ValidateDocumentTxnPrewriteRequest fs env request = EILLEGAL_PARAMTETERS
          \<or> ValidateDocumentTxnPrewriteRequest fs env request = EDOCUMENT_EMPTY)"
proof -
  have nok: "\<not> ok (prewrite_mutation_loop env (prewrite_mutations request))"
    using prewrite_mutation_loop_ok_legal[of env "prewrite_mutations request"] assms(14,15)
    by (auto simp: list_all_iff)
  from assms(14) have ne: "prewrite_mutations request \<noteq> []" by auto
  from assms(7) have keys: "\<not> list_ex (\<lambda>mutation. mutation_key mutation = []) (prewrite_mutations request)"
    by (simp add: list_ex_iff list_all_iff)
  have eq: "ValidateDocumentTxnPrewriteRequest fs env request
           = prewrite_mutation_loop env (prewrite_mutations request)"
    using assms(1-6,8-13) nok ne keys
    by (simp add: ValidateDocumentTxnPrewriteRequest_def)
  with nok prewrite_mutation_loop_codes[of env "prewrite_mutations request"]
  show ?thesis by (auto simp: ok_def)
qed

lemma DoTxnPrewriteDocument_rejected:
  "\<not> ok (ValidateDocumentTxnPrewriteRequest fs env request) \<Longrightarrow>
   DoTxnPrewriteDocument fs env storage request is_sync
     = \<lparr>response_error = Some (ValidateDocumentTxnPrewriteRequest fs env request),
        response_results = [], response_stream_has_more = None, done_run = 1,
        engine_call = None\<rparr>"
  by (simp add: DoTxnPrewriteDocument_def Let_def)

text \<open>
  Claim C3. A \<^verbatim>\<open>DocumentAdd\<close> request that contains a document whose id is zero,
  negative or \<^verbatim>\<open>INT64_MAX\<close> never passes validation, and the body then sets the
  validation error in the response and does not call the engine, so nothing is stored;
  when the checks that precede the id check in \<^verbatim>\<open>ValidateDocumentAddRequest\<close> pass
  (epoch, region id, batch count, request size, ttl, leader, index ready), the error is
  \<^verbatim>\<open>EILLEGAL_PARAMTETERS\<close>. The same holds for a document \<^verbatim>\<open>TxnPrewrite\<close> request
  with a mutation whose key decodes to such an id: it never passes validation and the
  engine is not called; when the checks that precede the loop over the mutations pass,
  the error is the one of that loop, \<^verbatim>\<open>EILLEGAL_PARAMTETERS\<close> (or
  \<^verbatim>\<open>EDOCUMENT_EMPTY\<close>, when a put mutation before the offending one carries no document
  data).
\<close>

theorem illegal_document_id_rejected:
  "(document \<in> set (add_documents add_request)
      \<and> (document_id document \<le> 0 \<or> document_id document = INT64_MAX) \<longrightarrow>
      \<not> ok (ValidateDocumentAddRequest fs env add_request)
      \<and> response_error (DoDocumentAdd fs env add_storage add_request is_sync)
          = Some (ValidateDocumentAddRequest fs env add_request)
      \<and> engine_call (DoDocumentAdd fs env add_storage add_request is_sync) = None
      \<and> (ok (ValidateRegionEpoch env) \<and> add_region_id add_request \<noteq> 0
          \<and> int (length (add_documents add_request)) \<le> FLAGS_document_max_batch_count fs
          \<and> int (add_ByteSizeLong add_request) \<le> to_uint64 (FLAGS_document_max_request_size fs)
          \<and> 0 \<le> add_ttl add_request \<and> ok (ValidateLeader env) \<and> IsReady env \<longrightarrow>
          ValidateDocumentAddRequest fs env add_request = EILLEGAL_PARAMTETERS))
   \<and> (mutation \<in> set (prewrite_mutations prewrite_request)
      \<and> (UnPackageDocumentId env (mutation_key mutation) \<le> 0
          \<or> UnPackageDocumentId env (mutation_key mutation) = INT64_MAX) \<longrightarrow>
      \<not> ok (ValidateDocumentTxnPrewriteRequest fs env prewrite_request)
      \<and> response_error (DoTxnPrewriteDocument fs env prewrite_storage prewrite_request is_sync)
          = Some (ValidateDocumentTxnPrewriteRequest fs env prewrite_request)
      \<and> engine_call (DoTxnPrewriteDocument fs env prewrite_storage prewrite_request is_sync) = None
      \<and> (ok (ValidateRegionEpoch env)
          \<and> int (length (prewrite_mutations prewrite_request)) \<le> FLAGS_max_prewrite_count fs
          \<and> prewrite_primary_lock prewrite_request \<noteq> []
          \<and> prewrite_start_ts prewrite_request \<noteq> 0
          \<and> prewrite_lock_ttl prewrite_request \<noteq> 0
          \<and> prewrite_txn_size prewrite_request \<noteq> 0
          \<and> list_all (\<lambda>mutation. mutation_key mutation \<noteq> []) (prewrite_mutations prewrite_request)
          \<and> ok (ValidateRegion env (map mutation_key (prewrite_mutations prewrite_request)))
          \<and> int (length (prewrite_mutations prewrite_request)) \<le> FLAGS_document_max_batch_count fs
          \<and> int (prewrite_ByteSizeLong prewrite_request)
              \<le> to_uint64 (FLAGS_document_max_request_size fs)
          \<and> ok (ValidateLeader env) \<and> ok (ValidateClusterReadOnly env) \<and> IsReady env \<longrightarrow>
          ValidateDocumentTxnPrewriteRequest fs env prewrite_request = EILLEGAL_PARAMTETERS
          \<or> ValidateDocumentTxnPrewriteRequest fs env prewrite_request = EDOCUMENT_EMPTY))"
proof (intro conjI impI)
  assume a: "document \<in> set (add_documents add_request)
      \<and> (document_id document \<le> 0 \<or> document_id document = INT64_MAX)"
  then have ill: "\<not> IsLegalDocumentId (document_id document)" by (simp add: illegal_ids)
  with a ValidateDocumentAddRequest_ok_legal[of fs env add_request]
  show nok: "\<not> ok (ValidateDocumentAddRequest fs env add_request)"
    by (auto simp: list_all_iff)
  from DoDocumentAdd_rejected[OF nok]
  show "response_error (DoDocumentAdd fs env add_storage add_request is_sync)
          = Some (ValidateDocumentAddRequest fs env add_request)"
    and "engine_call (DoDocumentAdd fs env add_storage add_request is_sync) = None"
    by simp_all
  assume "ok (ValidateRegionEpoch env) \<and> add_region_id add_request \<noteq> 0
          \<and> int (length (add_documents add_request)) \<le> FLAGS_document_max_batch_count fs
          \<and> int (add_ByteSizeLong add_request) \<le> to_uint64 (FLAGS_document_max_request_size fs)
          \<and> 0 \<le> add_ttl add_request \<and> ok (ValidateLeader env) \<and> IsReady env"
  with a ill show "ValidateDocumentAddRequest fs env add_request = EILLEGAL_PARAMTETERS"
    by (intro ValidateDocumentAddRequest_at_id_check[of env add_request fs document]) simp_all
next
  assume a: "mutation \<in> set (prewrite_mutations prewrite_request)
      \<and> (UnPackageDocumentId env (mutation_key mutation) \<le> 0
          \<or> UnPackageDocumentId env (mutation_key mutation) = INT64_MAX)"
  then have ill: "\<not> IsLegalDocumentId (UnPackageDocumentId env (mutation_key mutation))"
    by (simp add: illegal_ids)
  with a ValidateDocumentTxnPrewriteRequest_ok_loop[of fs env prewrite_request]
    prewrite_mutation_loop_ok_legal[of env "prewrite_mutations prewrite_request"]
  show nok: "\<not> ok (ValidateDocumentTxnPrewriteRequest fs env prewrite_request)"
    by (auto simp: list_all_iff)
  from DoTxnPrewriteDocument_rejected[OF nok]
  show "response_error (DoTxnPrewriteDocument fs env prewrite_storage prewrite_request is_sync)
          = Some (ValidateDocumentTxnPrewriteRequest fs env prewrite_request)"
    and "engine_call (DoTxnPrewriteDocument fs env prewrite_storage prewrite_request is_sync) = None"
    by simp_all
  assume "ok (ValidateRegionEpoch env)
          \<and> int (length (prewrite_mutations prewrite_request)) \<le> FLAGS_max_prewrite_count fs
          \<and> prewrite_primary_lock prewrite_request \<noteq> []
          \<and> prewrite_start_ts prewrite_request \<noteq> 0
          \<and> prewrite_lock_ttl prewrite_request \<noteq> 0
          \<and> prewrite_txn_size prewrite_request \<noteq> 0
          \<and> list_all (\<lambda>mutation. mutation_key mutation \<noteq> []) (prewrite_mutations prewrite_request)
          \<and> ok (ValidateRegion env (map mutation_key (prewrite_mutations prewrite_request)))
          \<and> int (length (prewrite_mutations prewrite_request)) \<le> FLAGS_document_max_batch_count fs
          \<and> int (prewrite_ByteSizeLong prewrite_request)
              \<le> to_uint64 (FLAGS_document_max_request_size fs)
          \<and> ok (ValidateLeader env) \<and> ok (ValidateClusterReadOnly env) \<and> IsReady env"
  with a ill
  have "ValidateDocumentTxnPrewriteRequest fs env prewrite_request
           = prewrite_mutation_loop env (prewrite_mutations prewrite_request)
       \<and> (ValidateDocumentTxnPrewriteRequest fs env prewrite_request = EILLEGAL_PARAMTETERS
          \<or> ValidateDocumentTxnPrewriteRequest fs env prewrite_request = EDOCUMENT_EMPTY)"
    by (intro ValidateDocumentTxnPrewriteRequest_at_loop[of env prewrite_request fs mutation])
       simp_all
  then show "ValidateDocumentTxnPrewriteRequest fs env prewrite_request = EILLEGAL_PARAMTETERS
          \<or> ValidateDocumentTxnPrewriteRequest fs env prewrite_request = EDOCUMENT_EMPTY"
    by blast
qed

theorem illegal_document_id_rejected_witness:
  "\<lparr>document_id = 0, document_data_empty = False\<rparr> \<in> set (add_documents example_add_request)
   \<and> document_id \<lparr>document_id = 0, document_data_empty = False\<rparr> \<le> 0
   \<and> ValidateDocumentAddRequest (default_flags 1024 1000 16) (example_service_env example_decode)
        example_add_request = EILLEGAL_PARAMTETERS
   \<and> engine_call (DoDocumentAdd (default_flags 1024 1000 16) (example_service_env example_decode)
        (\<lambda>call. OK) example_add_request True) = None
   \<and> hd (prewrite_mutations example_prewrite_request) \<in> set (prewrite_mutations example_prewrite_request)
   \<and> UnPackageDocumentId (example_service_env example_decode)
        (mutation_key (hd (prewrite_mutations example_prewrite_request))) = INT64_MAX
   \<and> ValidateDocumentTxnPrewriteRequest (default_flags 1024 1000 16)
        (example_service_env example_decode) example_prewrite_request = EILLEGAL_PARAMTETERS
   \<and> engine_call (DoTxnPrewriteDocument (default_flags 1024 1000 16)
        (example_service_env example_decode) (\<lambda>call. OK) example_prewrite_request True) = None"
proof -
  let ?fs = "default_flags 1024 1000 16"
  let ?env = "example_service_env example_decode"
  let ?d = "\<lparr>document_id = 0, document_data_empty = False\<rparr>"
  let ?m = "hd (prewrite_mutations example_prewrite_request)"
  have d: "?d \<in> set (add_documents example_add_request)" "document_id ?d \<le> 0"
    by (simp_all add: example_add_request_def)
  have m: "?m \<in> set (prewrite_mutations example_prewrite_request)"
    "UnPackageDocumentId ?env (mutation_key ?m) = INT64_MAX"
    by (simp_all add: example_prewrite_request_def example_service_env_def example_decode_def
        INT64_MAX_def)
  have pre_add: "ok (ValidateRegionEpoch ?env) \<and> add_region_id example_add_request \<noteq> 0
          \<and> int (length (add_documents example_add_request)) \<le> FLAGS_document_max_batch_count ?fs
          \<and> int (add_ByteSizeLong example_add_request)
              \<le> to_uint64 (FLAGS_document_max_request_size ?fs)
          \<and> 0 \<le> add_ttl example_add_request \<and> ok (ValidateLeader ?env) \<and> IsReady ?env"
    by (simp add: example_service_env_def example_add_request_def default_flags_def to_uint64_def)
  have v: "ValidateDocumentTxnPrewriteRequest ?fs ?env example_prewrite_request = EILLEGAL_PARAMTETERS"
    by (simp add: ValidateDocumentTxnPrewriteRequest_def example_service_env_def
        example_prewrite_request_def default_flags_def to_uint64_def example_decode_def
        IsLegalDocumentId_def INT64_MAX_def)
  from illegal_document_id_rejected[where document = ?d and add_request = example_add_request
      and fs = ?fs and env = ?env and add_storage = "\<lambda>call. OK" and is_sync = True
      and mutation = ?m and prewrite_request = example_prewrite_request
      and prewrite_storage = "\<lambda>call. OK"]
    d m pre_add v
  show ?thesis by simp
qed

lemma DoDocumentDelete_rejected:
  "\<not> ok (ValidateDocumentDeleteRequest fs env request) \<Longrightarrow>
   DoDocumentDelete fs env storage request is_sync
     = \<lparr>response_error = Some (ValidateDocumentDeleteRequest fs env request),
        response_results = [], response_stream_has_more = None, done_run = 1,
        engine_call = None\<rparr>"
  by (simp add: DoDocumentDelete_def Let_def)

lemma DoDocumentBatchQuery_rejected:
  "\<not> ok (ValidateDocumentBatchQueryRequest fs env request) \<Longrightarrow>
   DoDocumentBatchQuery fs env storage request
     = \<lparr>response_error = Some (ValidateDocumentBatchQueryRequest fs env request),
        response_results = [], response_stream_has_more = None, done_run = 1,
        engine_call = None\<rparr>"
  by (simp add: DoDocumentBatchQuery_def Let_def)

lemma ValidateDocumentAddRequest_oversized:
  "int (length (add_documents request)) > FLAGS_document_max_batch_count fs \<Longrightarrow>
   \<not> ok (ValidateDocumentAddRequest fs env request)
   \<and> (ok (ValidateRegionEpoch env) \<and> add_region_id request \<noteq> 0 \<and> add_documents request \<noteq> [] \<longrightarrow>
        ValidateDocumentAddRequest fs env request = EDOCUMENT_EXCEED_MAX_BATCH_COUNT)"
  by (simp add: ValidateDocumentAddRequest_def)

lemma ValidateDocumentDeleteRequest_oversized:
  "int (length (delete_ids request)) > FLAGS_document_max_batch_count fs \<Longrightarrow>
   \<not> ok (ValidateDocumentDeleteRequest fs env request)
   \<and> (ok (ValidateRegionEpoch env) \<and> delete_region_id request \<noteq> 0 \<and> delete_ids request \<noteq> [] \<longrightarrow>
        ValidateDocumentDeleteRequest fs env request = EDOCUMENT_EXCEED_MAX_BATCH_COUNT)"
  by (simp add: ValidateDocumentDeleteRequest_def)

lemma ValidateDocumentBatchQueryRequest_oversized:
  "int (length (query_document_ids request)) > FLAGS_document_max_batch_count fs \<Longrightarrow>
   \<not> ok (ValidateDocumentBatchQueryRequest fs env request)
   \<and> (ok (ValidateRegionEpoch env) \<and> query_region_id request \<noteq> 0
        \<and> query_document_ids request \<noteq> [] \<longrightarrow>
        ValidateDocumentBatchQueryRequest fs env request = EDOCUMENT_EXCEED_MAX_BATCH_COUNT)"
  by (simp add: ValidateDocumentBatchQueryRequest_def)

text \<open>
  Claim C5. The flag \<^verbatim>\<open>document_max_batch_count\<close> has the default 4096. A
  \<^verbatim>\<open>DocumentAdd\<close>, \<^verbatim>\<open>DocumentDelete\<close> or \<^verbatim>\<open>DocumentBatchQuery\<close> request whose batch
  (documents, ids, document ids) has more entries than the flag never passes validation,
  and its body answers with the validation error without calling the engine. When the
  checks that precede the batch-count check pass (the epoch matches, the region id is not
  0, the batch is not empty), the error is \<^verbatim>\<open>EDOCUMENT_EXCEED_MAX_BATCH_COUNT\<close>.
\<close>

theorem oversized_batch_rejected:
  "FLAGS_document_max_batch_count
      (default_flags max_prewrite_count stream_message_max_limit_size
         document_max_background_task_count) = 4096
   \<and> (int (length (add_documents add_request)) > FLAGS_document_max_batch_count fs \<longrightarrow>
        \<not> ok (ValidateDocumentAddRequest fs env add_request)
        \<and> response_error (DoDocumentAdd fs env add_storage add_request is_sync)
            = Some (ValidateDocumentAddRequest fs env add_request)
        \<and> engine_call (DoDocumentAdd fs env add_storage add_request is_sync) = None
        \<and> (ok (ValidateRegionEpoch env) \<and> add_region_id add_request \<noteq> 0
            \<and> add_documents add_request \<noteq> [] \<longrightarrow>
            ValidateDocumentAddRequest fs env add_request = EDOCUMENT_EXCEED_MAX_BATCH_COUNT))
   \<and> (int (length (delete_ids delete_request)) > FLAGS_document_max_batch_count fs \<longrightarrow>
        \<not> ok (ValidateDocumentDeleteRequest fs env delete_request)
        \<and> response_error (DoDocumentDelete fs env delete_storage delete_request is_sync)
            = Some (ValidateDocumentDeleteRequest fs env delete_request)
        \<and> engine_call (DoDocumentDelete fs env delete_storage delete_request is_sync) = None
        \<and> (ok (ValidateRegionEpoch env) \<and> delete_region_id delete_request \<noteq> 0
            \<and> delete_ids delete_request \<noteq> [] \<longrightarrow>
            ValidateDocumentDeleteRequest fs env delete_request = EDOCUMENT_EXCEED_MAX_BATCH_COUNT))
   \<and> (int (length (query_document_ids query_request)) > FLAGS_document_max_batch_count fs \<longrightarrow>
        \<not> ok (ValidateDocumentBatchQueryRequest fs env query_request)
        \<and> response_error (DoDocumentBatchQuery fs env query_storage query_request)
            = Some (ValidateDocumentBatchQueryRequest fs env query_request)
        \<and> engine_call (DoDocumentBatchQuery fs env query_storage query_request) = None
        \<and> (ok (ValidateRegionEpoch env) \<and> query_region_id query_request \<noteq> 0
            \<and> query_document_ids query_request \<noteq> [] \<longrightarrow>
            ValidateDocumentBatchQueryRequest fs env query_request
              = EDOCUMENT_EXCEED_MAX_BATCH_COUNT))"
proof (intro conjI impI)
  show "FLAGS_document_max_batch_count
      (default_flags max_prewrite_count stream_message_max_limit_size
         document_max_background_task_count) = 4096"
    by (simp add: default_flags_def)
next
  assume a: "int (length (add_documents add_request)) > FLAGS_document_max_batch_count fs"
  from ValidateDocumentAddRequest_oversized[OF a, of env]
  show nok: "\<not> ok (ValidateDocumentAddRequest fs env add_request)" by simp
  from DoDocumentAdd_rejected[OF nok]
  show "response_error (DoDocumentAdd fs env add_storage add_request is_sync)
            = Some (ValidateDocumentAddRequest fs env add_request)"
    and "engine_call (DoDocumentAdd fs env add_storage add_request is_sync) = None"
    by simp_all
  assume "ok (ValidateRegionEpoch env) \<and> add_region_id add_request \<noteq> 0
            \<and> add_documents add_request \<noteq> []"
  with ValidateDocumentAddRequest_oversized[OF a, of env]
  show "ValidateDocumentAddRequest fs env add_request = EDOCUMENT_EXCEED_MAX_BATCH_COUNT"
    by blast
next
  assume a: "int (length (delete_ids delete_request)) > FLAGS_document_max_batch_count fs"
  from ValidateDocumentDeleteRequest_oversized[OF a, of env]
  show nok: "\<not> ok (ValidateDocumentDeleteRequest fs env delete_request)" by simp
  from DoDocumentDelete_rejected[OF nok]
  show "response_error (DoDocumentDelete fs env delete_storage delete_request is_sync)
            = Some (ValidateDocumentDeleteRequest fs env delete_request)"
    and "engine_call (DoDocumentDelete fs env delete_storage delete_request is_sync) = None"
    by simp_all
  assume "ok (ValidateRegionEpoch env) \<and> delete_region_id delete_request \<noteq> 0
            \<and> delete_ids delete_request \<noteq> []"
  with ValidateDocumentDeleteRequest_oversized[OF a, of env]
  show "ValidateDocumentDeleteRequest fs env delete_request = EDOCUMENT_EXCEED_MAX_BATCH_COUNT"
    by blast
next
  assume a: "int (length (query_document_ids query_request)) > FLAGS_document_max_batch_count fs"
  from ValidateDocumentBatchQueryRequest_oversized[OF a, of env]
  show nok: "\<not> ok (ValidateDocumentBatchQueryRequest fs env query_request)" by simp
  from DoDocumentBatchQuery_rejected[OF nok, of query_storage]
  show "response_error (DoDocumentBatchQuery fs env query_storage query_request)
            = Some (ValidateDocumentBatchQueryRequest fs env query_request)"
    and "engine_call (DoDocumentBatchQuery fs env query_storage query_request) = None"
    by simp_all
  assume "ok (ValidateRegionEpoch env) \<and> query_region_id query_request \<noteq> 0
            \<and> query_document_ids query_request \<noteq> []"
  with ValidateDocumentBatchQueryRequest_oversized[OF a, of env]
  show "ValidateDocumentBatchQueryRequest fs env query_request = EDOCUMENT_EXCEED_MAX_BATCH_COUNT"
    by blast
qed

theorem oversized_batch_rejected_witness:
  "int (length (add_documents
          \<lparr>add_region_id = 1,
           add_documents = replicate 4097 \<lparr>document_id = 5, document_data_empty = False\<rparr>,
           add_ByteSizeLong = 100, add_ttl = 0, add_is_update = False\<rparr>))
     > FLAGS_document_max_batch_count (default_flags 1024 1000 16)
   \<and> ValidateDocumentAddRequest (default_flags 1024 1000 16) (example_service_env example_decode)
        \<lparr>add_region_id = 1,
         add_documents = replicate 4097 \<lparr>document_id = 5, document_data_empty = False\<rparr>,
         add_ByteSizeLong = 100, add_ttl = 0, add_is_update = False\<rparr>
       = EDOCUMENT_EXCEED_MAX_BATCH_COUNT
   \<and> engine_call (DoDocumentAdd (default_flags 1024 1000 16) (example_service_env example_decode)
        (\<lambda>call. OK)
        \<lparr>add_region_id = 1,
         add_documents = replicate 4097 \<lparr>document_id = 5, document_data_empty = False\<rparr>,
         add_ByteSizeLong = 100, add_ttl = 0, add_is_update = False\<rparr> True) = None
   \<and> int (length (delete_ids \<lparr>delete_region_id = 1, delete_ids = replicate 4097 5\<rparr>))
     > FLAGS_document_max_batch_count (default_flags 1024 1000 16)
   \<and> ValidateDocumentDeleteRequest (default_flags 1024 1000 16) (example_service_env example_decode)
        \<lparr>delete_region_id = 1, delete_ids = replicate 4097 5\<rparr>
       = EDOCUMENT_EXCEED_MAX_BATCH_COUNT
   \<and> engine_call (DoDocumentDelete (default_flags 1024 1000 16) (example_service_env example_decode)
        (\<lambda>call. OK) \<lparr>delete_region_id = 1, delete_ids = replicate 4097 5\<rparr> True) = None
   \<and> int (length (query_document_ids
          \<lparr>query_region_id = 1, query_document_ids = replicate 4097 5, query_ts = 0\<rparr>))
     > FLAGS_document_max_batch_count (default_flags 1024 1000 16)
   \<and> ValidateDocumentBatchQueryRequest (default_flags 1024 1000 16)
        (example_service_env example_decode)
        \<lparr>query_region_id = 1, query_document_ids = replicate 4097 5, query_ts = 0\<rparr>
       = EDOCUMENT_EXCEED_MAX_BATCH_COUNT
   \<and> engine_call (DoDocumentBatchQuery (default_flags 1024 1000 16)
        (example_service_env example_decode) (\<lambda>call. (OK, [] :: unit list))
        \<lparr>query_region_id = 1, query_document_ids = replicate 4097 5, query_ts = 0\<rparr>) = None"
proof -
  let ?fs = "default_flags 1024 1000 16"
  let ?env = "example_service_env example_decode"
  let ?a = "\<lparr>add_region_id = 1,
           add_documents = replicate 4097 \<lparr>document_id = 5, document_data_empty = False\<rparr>,
           add_ByteSizeLong = 100, add_ttl = 0, add_is_update = False\<rparr>"
  let ?d = "\<lparr>delete_region_id = 1, delete_ids = replicate 4097 5\<rparr>"
  let ?q = "\<lparr>query_region_id = 1, query_document_ids = replicate 4097 5, query_ts = 0\<rparr>"
  have big: "int (length (add_documents ?a)) > FLAGS_document_max_batch_count ?fs"
    "int (length (delete_ids ?d)) > FLAGS_document_max_batch_count ?fs"
    "int (length (query_document_ids ?q)) > FLAGS_document_max_batch_count ?fs"
    by (simp_all add: default_flags_def)
  have pre: "ok (ValidateRegionEpoch ?env)" "add_region_id ?a \<noteq> 0" "add_documents ?a \<noteq> []"
    "delete_region_id ?d \<noteq> 0" "delete_ids ?d \<noteq> []"
    "query_region_id ?q \<noteq> 0" "query_document_ids ?q \<noteq> []"
    by (simp_all add: example_service_env_def)
  from oversized_batch_rejected[where fs = ?fs and env = ?env and add_request = ?a
      and delete_request = ?d and query_request = ?q and add_storage = "\<lambda>call. OK"
      and delete_storage = "\<lambda>call. OK" and query_storage = "\<lambda>call. (OK, [] :: unit list)"
      and is_sync = True]
    big pre
  show ?thesis by simp
qed

text \<open>
  Claim C10. A \<^verbatim>\<open>Search\<close> on the flat index with a non-empty query batch and
  \<^verbatim>\<open>topk\<close> equal to 0 returns \<^verbatim>\<open>OK\<close>, leaves the result vector as the caller passed
  it (so it holds no result when it was passed empty) and makes no call to the underlying
  index. A \<^verbatim>\<open>DocumentSearch\<close> whose request passes validation and has \<^verbatim>\<open>top_n\<close> equal
  to 0 sets no error, adds no result to the response, runs the done closure once and does
  not call the engine.
\<close>

theorem zero_top_k_returns_nothing:
  "(vector_with_ids \<noteq> [] \<longrightarrow>
      Search fl co vi vector_with_ids 0 filters results = (OK, results, [])
      \<and> fst (snd (Search fl co vi vector_with_ids 0 filters [])) = [])
   \<and> (ok (ValidateDocumentSearchRequest fs env request) \<and> search_top_n request = 0 \<longrightarrow>
      DoDocumentSearch fs env storage request
        = \<lparr>response_error = None, response_results = [], response_stream_has_more = None,
           done_run = 1, engine_call = None\<rparr>)"
  by (simp add: Search_def DoDocumentSearch_def Let_def)

theorem zero_top_k_returns_nothing_witness:
  "[\<lparr>vector_id = 9, float_values = [2, 0 :: real]\<rparr>] \<noteq> []
   \<and> Search real_float_ops silent_collaborators example_index
        [\<lparr>vector_id = 9, float_values = [2, 0]\<rparr>] 0 [] [] = (OK, [], [])
   \<and> ok (ValidateDocumentSearchRequest (default_flags 1024 1000 16)
           (example_service_env example_decode) \<lparr>search_region_id = 1, search_top_n = 0\<rparr>)
   \<and> search_top_n \<lparr>search_region_id = 1, search_top_n = 0\<rparr> = 0
   \<and> DoDocumentSearch (default_flags 1024 1000 16) (example_service_env example_decode)
        (\<lambda>call. (OK, [()])) \<lparr>search_region_id = 1, search_top_n = 0\<rparr>
       = \<lparr>response_error = None, response_results = [], response_stream_has_more = None,
          done_run = 1, engine_call = None\<rparr>"
proof -
  let ?q = "[\<lparr>vector_id = 9, float_values = [2, 0 :: real]\<rparr>]"
  let ?r = "\<lparr>search_region_id = 1, search_top_n = 0\<rparr>"
  have q: "?q \<noteq> []" by simp
  have v: "ok (ValidateDocumentSearchRequest (default_flags 1024 1000 16)
           (example_service_env example_decode) ?r)"
    by (simp add: ValidateDocumentSearchRequest_def example_service_env_def default_flags_def)
  have t: "search_top_n ?r = 0" by simp
  from zero_top_k_returns_nothing[where vector_with_ids = ?q and fl = real_float_ops
      and co = silent_collaborators and vi = example_index and filters = "[]" and results = "[]"
      and fs = "default_flags 1024 1000 16" and env = "example_service_env example_decode"
      and request = ?r and storage = "\<lambda>call. (OK, [()])"]
    q v t
  show ?thesis by simp
qed

lemma DoTxnScanDocument_rejected:
  "\<not> ok (ValidateTxnScanRequestIndex fs env request) \<Longrightarrow>
   ValidateTxnScanRequestIndex fs env request \<noteq> ERANGE_INVALID \<Longrightarrow>
   snd (DoTxnScanDocument fs env storage region request)
     = \<lparr>response_error = Some (ValidateTxnScanRequestIndex fs env request),
        response_results = [], response_stream_has_more = None, done_run = 1,
        engine_call = None\<rparr>"
  by (auto simp: DoTxnScanDocument_def Let_def)

lemma DoDocumentSearchAll_rejected:
  "\<not> ok (ValidateDocumentSearchAllRequest fs env request) \<Longrightarrow>
   DoDocumentSearchAll fs env storage request
     = \<lparr>response_error = Some (ValidateDocumentSearchAllRequest fs env request),
        response_results = [], response_stream_has_more = None, done_run = 1,
        engine_call = None\<rparr>"
  by (simp add: DoDocumentSearchAll_def Let_def)

lemma ValidateTxnScanRequestIndex_oversized:
  "scan_limit request > FLAGS_stream_message_max_limit_size fs
     \<or> scan_stream_limit request > FLAGS_stream_message_max_limit_size fs \<Longrightarrow>
   ValidateTxnScanRequestIndex fs env request = EILLEGAL_PARAMTETERS"
  by (auto simp: ValidateTxnScanRequestIndex_def)

lemma ValidateDocumentSearchAllRequest_oversized:
  "search_all_stream_limit request > FLAGS_stream_message_max_limit_size fs \<Longrightarrow>
   \<not> ok (ValidateDocumentSearchAllRequest fs env request)
   \<and> (\<not> region_is_nullptr env \<and> ok (ValidateRegionEpoch env) \<and> search_all_region_id request \<noteq> 0
        \<longrightarrow> ValidateDocumentSearchAllRequest fs env request = EILLEGAL_PARAMTETERS)"
  by (simp add: ValidateDocumentSearchAllRequest_def)

text \<open>
  Claim C4, as stated, fails: with the cap at 1000, a \<^verbatim>\<open>TxnScan\<close> with limit 1001 and
  a \<^verbatim>\<open>DocumentSearchAll\<close> with stream limit 1001 are answered with
  \<^verbatim>\<open>EILLEGAL_PARAMTETERS\<close>, without a call to the engine and without a stream in the
  response, while the same requests with limit 1000 are served.
\<close>

theorem oversized_limit_not_streamed_counterexample:
  "snd (DoTxnScanDocument (default_flags 1024 1000 16) (example_service_env example_decode)
          example_scan_storage Region_init (example_scan_request 1001))
     = \<lparr>response_error = Some EILLEGAL_PARAMTETERS, response_results = [],
        response_stream_has_more = None, done_run = 1, engine_call = None\<rparr>
   \<and> DoDocumentSearchAll (default_flags 1024 1000 16) (example_service_env example_decode)
        example_search_all_storage (example_search_all_request 1001)
     = \<lparr>response_error = Some EILLEGAL_PARAMTETERS, response_results = [],
        response_stream_has_more = None, done_run = 1, engine_call = None\<rparr>
   \<and> snd (DoTxnScanDocument (default_flags 1024 1000 16) (example_service_env example_decode)
          example_scan_storage Region_init (example_scan_request 1000))
     = \<lparr>response_error = None, response_results = [Some ()],
        response_stream_has_more = Some True, done_run = 1,
        engine_call = Some (example_scan_request 1000)\<rparr>
   \<and> DoDocumentSearchAll (default_flags 1024 1000 16) (example_service_env example_decode)
        example_search_all_storage (example_search_all_request 1000)
     = \<lparr>response_error = None, response_results = [()],
        response_stream_has_more = Some True, done_run = 1,
        engine_call = Some (example_search_all_request 1000)\<rparr>"
  by (simp add: DoTxnScanDocument_def DoDocumentSearchAll_def ValidateTxnScanRequestIndex_def
      ValidateDocumentSearchAllRequest_def default_flags_def example_service_env_def
      example_scan_request_def example_search_all_request_def example_scan_storage_def
      example_search_all_storage_def)

text \<open>
  Claim C4, amended. A document \<^verbatim>\<open>TxnScan\<close> whose limit or stream limit is greater than
  \<^verbatim>\<open>stream_message_max_limit_size\<close> fails validation with \<^verbatim>\<open>EILLEGAL_PARAMTETERS\<close>;
  the body sets that error, does not call the engine and puts no stream into the
  response. A \<^verbatim>\<open>DocumentSearchAll\<close> whose stream limit is greater than the cap never
  passes validation and is answered in the same way, with \<^verbatim>\<open>EILLEGAL_PARAMTETERS\<close> when
  the checks that precede the limit checks pass (the region exists, the epoch matches,
  the region id is not 0).
\<close>

theorem oversized_limit_rejected:
  "(scan_limit scan_request > FLAGS_stream_message_max_limit_size fs
      \<or> scan_stream_limit scan_request > FLAGS_stream_message_max_limit_size fs \<longrightarrow>
      ValidateTxnScanRequestIndex fs env scan_request = EILLEGAL_PARAMTETERS
      \<and> snd (DoTxnScanDocument fs env scan_storage region scan_request)
          = \<lparr>response_error = Some EILLEGAL_PARAMTETERS, response_results = [],
             response_stream_has_more = None, done_run = 1, engine_call = None\<rparr>)
   \<and> (search_all_stream_limit search_all_request > FLAGS_stream_message_max_limit_size fs \<longrightarrow>
      \<not> ok (ValidateDocumentSearchAllRequest fs env search_all_request)
      \<and> DoDocumentSearchAll fs env search_all_storage search_all_request
          = \<lparr>response_error = Some (ValidateDocumentSearchAllRequest fs env search_all_request),
             response_results = [], response_stream_has_more = None, done_run = 1,
             engine_call = None\<rparr>
      \<and> (\<not> region_is_nullptr env \<and> ok (ValidateRegionEpoch env)
          \<and> search_all_region_id search_all_request \<noteq> 0 \<longrightarrow>
          ValidateDocumentSearchAllRequest fs env search_all_request = EILLEGAL_PARAMTETERS))"
proof (intro conjI impI)
  assume a: "scan_limit scan_request > FLAGS_stream_message_max_limit_size fs
      \<or> scan_stream_limit scan_request > FLAGS_stream_message_max_limit_size fs"
  show v: "ValidateTxnScanRequestIndex fs env scan_request = EILLEGAL_PARAMTETERS"
    by (rule ValidateTxnScanRequestIndex_oversized[OF a])
  from DoTxnScanDocument_rejected[of fs env scan_request scan_storage region]
  show "snd (DoTxnScanDocument fs env scan_storage region scan_request)
          = \<lparr>response_error = Some EILLEGAL_PARAMTETERS, response_results = [],
             response_stream_has_more = None, done_run = 1, engine_call = None\<rparr>"
    by (simp add: v)
next
  assume a: "search_all_stream_limit search_all_request > FLAGS_stream_message_max_limit_size fs"
  from ValidateDocumentSearchAllRequest_oversized[OF a, of env]
  show nok: "\<not> ok (ValidateDocumentSearchAllRequest fs env search_all_request)" by simp
  show "DoDocumentSearchAll fs env search_all_storage search_all_request
          = \<lparr>response_error = Some (ValidateDocumentSearchAllRequest fs env search_all_request),
             response_results = [], response_stream_has_more = None, done_run = 1,
             engine_call = None\<rparr>"
    by (rule DoDocumentSearchAll_rejected[OF nok])
  assume "\<not> region_is_nullptr env \<and> ok (ValidateRegionEpoch env)
          \<and> search_all_region_id search_all_request \<noteq> 0"
  with ValidateDocumentSearchAllRequest_oversized[OF a, of env]
  show "ValidateDocumentSearchAllRequest fs env search_all_request = EILLEGAL_PARAMTETERS"
    by blast
qed

theorem oversized_limit_rejected_witness:
  "scan_limit (example_scan_request 1001)
     > FLAGS_stream_message_max_limit_size (default_flags 1024 1000 16)
   \<and> ValidateTxnScanRequestIndex (default_flags 1024 1000 16)
        (example_service_env example_decode) (example_scan_request 1001) = EILLEGAL_PARAMTETERS
   \<and> engine_call (snd (DoTxnScanDocument (default_flags 1024 1000 16)
        (example_service_env example_decode) example_scan_storage Region_init
        (example_scan_request 1001))) = None
   \<and> search_all_stream_limit (example_search_all_request 1001)
     > FLAGS_stream_message_max_limit_size (default_flags 1024 1000 16)
   \<and> \<not> region_is_nullptr (example_service_env example_decode)
   \<and> ok (ValidateRegionEpoch (example_service_env example_decode))
   \<and> search_all_region_id (example_search_all_request 1001) \<noteq> 0
   \<and> ValidateDocumentSearchAllRequest (default_flags 1024 1000 16)
        (example_service_env example_decode) (example_search_all_request 1001)
       = EILLEGAL_PARAMTETERS
   \<and> engine_call (DoDocumentSearchAll (default_flags 1024 1000 16)
        (example_service_env example_decode) example_search_all_storage
        (example_search_all_request 1001)) = None"
proof -
  let ?fs = "default_flags 1024 1000 16"
  let ?env = "example_service_env example_decode"
  have s: "scan_limit (example_scan_request 1001) > FLAGS_stream_message_max_limit_size ?fs"
    by (simp add: example_scan_request_def default_flags_def)
  have a: "search_all_stream_limit (example_search_all_request 1001)
             > FLAGS_stream_message_max_limit_size ?fs"
    by (simp add: example_search_all_request_def default_flags_def)
  have pre: "\<not> region_is_nullptr ?env" "ok (ValidateRegionEpoch ?env)"
    "search_all_region_id (example_search_all_request 1001) \<noteq> 0"
    by (simp_all add: example_service_env_def example_search_all_request_def)
  from oversized_limit_rejected[where fs = ?fs and env = ?env
      and scan_request = "example_scan_request 1001" and scan_storage = example_scan_storage
      and region = Region_init and search_all_request = "example_search_all_request 1001"
      and search_all_storage = example_search_all_storage]
    s a pre
  show ?thesis by simp
qed

end
